theory Spec2Isabelle
  imports Main "HOL-Library.Sublist" "HOL-Library.Multiset"
begin

section \<open>Python values and exceptions\<close>

text \<open>
  The module \<^verbatim>\<open>home_assistant.py\<close> works on the values that \<^verbatim>\<open>response.json()\<close>
  returns: \<^verbatim>\<open>None\<close>, booleans, integers, floats, strings, lists and dictionaries
  with string keys. A dictionary is an association list in insertion order with
  distinct keys (Python dictionaries keep insertion order); a lookup reads the first
  binding. A float is identified by its \<^verbatim>\<open>repr\<close>. A string is the sequence of the
  bytes of its UTF-8 encoding; the only character the code inspects is the ASCII full
  stop, and where the code iterates over a string the bytes are grouped into code points.
\<close>

datatype json =
    JNull
  | JBool bool
  | JInt int
  | JFloat string
  | JStr string
  | JList "json list"
  | JObj "(string \<times> json) list"

text \<open>
  An exception carries its class name and its text \<^verbatim>\<open>str(e)\<close>. \<open>Exception\<close> stands
  for an instance of Python's class \<^verbatim>\<open>Exception\<close> (any subclass), the ones that
  \<^verbatim>\<open>except Exception\<close> catches; \<open>BaseException\<close> for the others
  (\<^verbatim>\<open>KeyboardInterrupt\<close>, \<^verbatim>\<open>asyncio.CancelledError\<close>, ...), which it lets through.
\<close>

datatype exc =
    Exception string string
  | BaseException string string

fun str_exc :: "exc \<Rightarrow> string" where
  "str_exc (Exception cls msg) = msg"
| "str_exc (BaseException cls msg) = msg"

fun is_Exception :: "exc \<Rightarrow> bool" where
  "is_Exception (Exception cls msg) = True"
| "is_Exception (BaseException cls msg) = False"

definition quote :: string where
  "quote = [CHR 0x27]"

fun type_name :: "json \<Rightarrow> string" where
  "type_name JNull = ''NoneType''"
| "type_name (JBool b) = ''bool''"
| "type_name (JInt i) = ''int''"
| "type_name (JFloat r) = ''float''"
| "type_name (JStr s) = ''str''"
| "type_name (JList xs) = ''list''"
| "type_name (JObj kvs) = ''dict''"

definition KeyError :: "string \<Rightarrow> exc" where
  "KeyError k = Exception ''KeyError'' (quote @ k @ quote)"

definition TypeError :: "string \<Rightarrow> exc" where
  "TypeError msg = Exception ''TypeError'' msg"

definition AttributeError :: "json \<Rightarrow> string \<Rightarrow> exc" where
  "AttributeError v attr =
     Exception ''AttributeError''
       (quote @ type_name v @ quote @ '' object has no attribute '' @ quote @ attr @ quote)"

text \<open>\<^verbatim>\<open>obj[key]\<close> with a string key: only a dictionary can be subscripted by a string.\<close>

fun py_getitem :: "json \<Rightarrow> string \<Rightarrow> exc + json" where
  "py_getitem (JObj kvs) k =
     (case map_of kvs k of Some v \<Rightarrow> Inr v | None \<Rightarrow> Inl (KeyError k))"
| "py_getitem (JList xs) k =
     Inl (TypeError ''list indices must be integers or slices, not str'')"
| "py_getitem (JStr s) k =
     Inl (TypeError (''string indices must be integers, not '' @ quote @ ''str'' @ quote))"
| "py_getitem v k =
     Inl (TypeError (quote @ type_name v @ quote @ '' object is not subscriptable''))"

text \<open>\<^verbatim>\<open>obj.get(key, default)\<close>: a method of dictionaries only.\<close>

fun py_get :: "json \<Rightarrow> string \<Rightarrow> json \<Rightarrow> exc + json" where
  "py_get (JObj kvs) k d = (case map_of kvs k of Some v \<Rightarrow> Inr v | None \<Rightarrow> Inr d)"
| "py_get v k d = Inl (AttributeError v ''get'')"

text \<open>\<^verbatim>\<open>obj.items()\<close>: a method of dictionaries only.\<close>

fun py_items :: "json \<Rightarrow> exc + (string \<times> json) list" where
  "py_items (JObj kvs) = Inr kvs"
| "py_items v = Inl (AttributeError v ''items'')"

text \<open>
  The code points of a string: in UTF-8 a code point is one leading byte followed by
  its continuation bytes, the bytes of the form \<^verbatim>\<open>10xxxxxx\<close>.
\<close>

definition is_continuation :: "char \<Rightarrow> bool" where
  "is_continuation c = (digit7 c \<and> \<not> digit6 c)"

fun code_points_from :: "string \<Rightarrow> string \<Rightarrow> string list" where
  "code_points_from cur [] = [cur]"
| "code_points_from cur (c # cs) =
     (if is_continuation c then code_points_from (cur @ [c]) cs
      else cur # code_points_from [c] cs)"

definition code_points :: "string \<Rightarrow> string list" where
  "code_points s = (case s of [] \<Rightarrow> [] | c # cs \<Rightarrow> code_points_from [c] cs)"

text \<open>
  \<^verbatim>\<open>for x in obj\<close>: a list yields its elements, a dictionary its keys, a string its
  characters (code points), each a string; nothing else is iterable.
\<close>

fun py_iter :: "json \<Rightarrow> exc + json list" where
  "py_iter (JList xs) = Inr xs"
| "py_iter (JObj kvs) = Inr (map (\<lambda>kv. JStr (fst kv)) kvs)"
| "py_iter (JStr s) = Inr (map JStr (code_points s))"
| "py_iter v = Inl (TypeError (quote @ type_name v @ quote @ '' object is not iterable''))"

text \<open>The receiver of a string method (\<^verbatim>\<open>.startswith\<close>, \<^verbatim>\<open>.split\<close>) must be a string.\<close>

fun str_method :: "string \<Rightarrow> json \<Rightarrow> exc + string" where
  "str_method meth (JStr s) = Inr s"
| "str_method meth v = Inl (AttributeError v meth)"

text \<open>\<^verbatim>\<open>s.startswith(p)\<close> and \<^verbatim>\<open>s.split(".")[0]\<close> on strings.\<close>

definition startswith :: "string \<Rightarrow> string \<Rightarrow> bool" where
  "startswith s p = prefix p s"

definition split_first :: "string \<Rightarrow> string" where
  "split_first s = takeWhile (\<lambda>c. c \<noteq> CHR ''.'') s"

text \<open>Truthiness, as \<^verbatim>\<open>if not x\<close> tests it.\<close>

fun truthy :: "json \<Rightarrow> bool" where
  "truthy JNull = False"
| "truthy (JBool b) = b"
| "truthy (JInt i) = (i \<noteq> 0)"
| "truthy (JFloat r) = (r \<noteq> ''0.0'' \<and> r \<noteq> ''-0.0'')"
| "truthy (JStr s) = (s \<noteq> [])"
| "truthy (JList xs) = (xs \<noteq> [])"
| "truthy (JObj kvs) = (kvs \<noteq> [])"

text \<open>Sequencing of computations that may raise.\<close>

fun bind_exc :: "exc + 'a \<Rightarrow> ('a \<Rightarrow> exc + 'b) \<Rightarrow> exc + 'b" where
  "bind_exc (Inl e) f = Inl e"
| "bind_exc (Inr x) f = f x"

text \<open>\<^verbatim>\<open>str(n)\<close> of an integer, in decimal.\<close>

fun str_nat :: "nat \<Rightarrow> string" where
  "str_nat n =
     (if n < 10 then [''0123456789'' ! n]
      else str_nat (n div 10) @ [''0123456789'' ! (n mod 10)])"

declare str_nat.simps [simp del]

definition str_int :: "int \<Rightarrow> string" where
  "str_int i = (if i < 0 then ''-'' @ str_nat (nat (- i)) else str_nat (nat i))"

section \<open>The collaborators: HTTP client, narration sink, JSON codec\<close>

datatype event =
    Status string bool
  | Message string

datatype http_method = GET | POST

record http_request =
  req_method :: http_method
  req_url :: string
  req_headers :: "(string \<times> string) list"
  req_data :: "string option"

text \<open>
  A response of the \<^verbatim>\<open>requests\<close> library: \<open>resp_text\<close> is \<^verbatim>\<open>response.text\<close>,
  \<open>resp_json\<close> what \<^verbatim>\<open>response.json()\<close> does: it returns the decoded body
  (\<open>Inr\<close>) or raises a decoding error with the given text (\<open>Inl\<close>).
\<close>

record response =
  status_code :: int
  resp_text :: string
  resp_json :: "string + json"

text \<open>
  What the module calls and does not define. \<open>requests\<close> is the hub seen through the
  HTTP client: a request gets a response, or the client raises (a connection error, an
  instance of \<^verbatim>\<open>Exception\<close>) with the given text. \<open>json_dumps\<close> and \<open>json_loads\<close>
  are \<^verbatim>\<open>json.dumps\<close> and \<^verbatim>\<open>json.loads\<close>; \<open>py_repr\<close> is Python's \<^verbatim>\<open>repr\<close> of a
  list or dictionary.
\<close>

record env =
  requests :: "http_request \<Rightarrow> string + response"
  json_dumps :: "json \<Rightarrow> string"
  json_loads :: "string \<Rightarrow> string + json"
  py_repr :: "json \<Rightarrow> string"

text \<open>\<^verbatim>\<open>str(v)\<close>, as an f-string renders a value.\<close>

fun py_str :: "env \<Rightarrow> json \<Rightarrow> string" where
  "py_str env JNull = ''None''"
| "py_str env (JBool b) = (if b then ''True'' else ''False'')"
| "py_str env (JInt i) = str_int i"
| "py_str env (JFloat r) = r"
| "py_str env (JStr s) = s"
| "py_str env v = py_repr env v"

text \<open>
  The narration sink \<^verbatim>\<open>__event_emitter__\<close>: called with the events it has received so
  far and the new one, it returns (\<open>None\<close>) or raises. The parameter defaults to
  Python's \<^verbatim>\<open>None\<close>, here \<open>None :: emitter option\<close>.
\<close>

type_synonym emitter = "event list \<Rightarrow> event \<Rightarrow> exc option"

section \<open>The class \<^verbatim>\<open>Tools\<close>\<close>

record Valves =
  ha_url :: string
  ha_api_key :: string

text \<open>The dictionaries that discovery builds, with their three keys.\<close>

record entity =
  entity_id :: string
  friendly_name :: json
  domain :: string

type_synonym grouped = "(string \<times> entity list) list"

record Tools =
  valves :: Valves
  entity_cache :: grouped
  citation :: bool

text \<open>\<^verbatim>\<open>Tools.__init__\<close>: empty settings, an empty cache.\<close>

definition init :: "Tools" where
  "init = \<lparr>valves = \<lparr>ha_url = [], ha_api_key = []\<rparr>, entity_cache = [], citation = False\<rparr>"

text \<open>
  The state an operation runs in: the object \<^verbatim>\<open>self\<close>, the events handed to the sink
  and the HTTP requests issued, both in order.
\<close>

record world =
  tools :: Tools
  emitted :: "event list"
  sent :: "http_request list"

type_synonym 'a io = "world \<Rightarrow> (exc + 'a) \<times> world"

definition io_return :: "'a \<Rightarrow> 'a io" where
  "io_return x = (\<lambda>w. (Inr x, w))"

definition io_lift :: "exc + 'a \<Rightarrow> 'a io" where
  "io_lift r = (\<lambda>w. (r, w))"

definition io_bind :: "'a io \<Rightarrow> ('a \<Rightarrow> 'b io) \<Rightarrow> 'b io" where
  "io_bind m f = (\<lambda>w. case m w of (Inl e, w') \<Rightarrow> (Inl e, w') | (Inr x, w') \<Rightarrow> f x w')"

text \<open>\<^verbatim>\<open>try: m except Exception as e: h\<close>.\<close>

definition try_except :: "'a io \<Rightarrow> (exc \<Rightarrow> 'a io) \<Rightarrow> 'a io" where
  "try_except m h =
     (\<lambda>w. case m w of
        (Inl e, w') \<Rightarrow> if is_Exception e then h e w' else (Inl e, w')
      | (Inr x, w') \<Rightarrow> (Inr x, w'))"

text \<open>
  \<^verbatim>\<open>await __event_emitter__(ev)\<close>: calling \<^verbatim>\<open>None\<close> raises a \<^verbatim>\<open>TypeError\<close>; a sink
  receives the event, which is recorded, and returns or raises.
\<close>

definition emit :: "emitter option \<Rightarrow> event \<Rightarrow> unit io" where
  "emit em ev =
     (\<lambda>w. case em of
        None \<Rightarrow> (Inl (TypeError (quote @ ''NoneType'' @ quote @ '' object is not callable'')), w)
      | Some sink \<Rightarrow>
          (case sink (emitted w) ev of
             None \<Rightarrow> (Inr (), w\<lparr>emitted := emitted w @ [ev]\<rparr>)
           | Some e \<Rightarrow> (Inl e, w\<lparr>emitted := emitted w @ [ev]\<rparr>)))"

text \<open>
  \<^verbatim>\<open>requests.get\<close> and \<^verbatim>\<open>requests.post\<close>: the request is recorded; the client returns
  the hub's response or raises.
\<close>

definition request :: "env \<Rightarrow> http_request \<Rightarrow> response io" where
  "request env rq =
     (\<lambda>w. case requests env rq of
        Inl msg \<Rightarrow> (Inl (Exception ''RequestException'' msg), w\<lparr>sent := sent w @ [rq]\<rparr>)
      | Inr r \<Rightarrow> (Inr r, w\<lparr>sent := sent w @ [rq]\<rparr>))"

definition requests_get :: "env \<Rightarrow> string \<Rightarrow> (string \<times> string) list \<Rightarrow> response io" where
  "requests_get env endpoint hdrs =
     request env \<lparr>req_method = GET, req_url = endpoint, req_headers = hdrs, req_data = None\<rparr>"

definition requests_post ::
  "env \<Rightarrow> string \<Rightarrow> string \<Rightarrow> (string \<times> string) list \<Rightarrow> response io" where
  "requests_post env endpoint payload hdrs =
     request env
       \<lparr>req_method = POST, req_url = endpoint, req_headers = hdrs, req_data = Some payload\<rparr>"

definition response_json :: "response \<Rightarrow> json io" where
  "response_json r =
     io_lift (case resp_json r of
                Inl msg \<Rightarrow> Inl (Exception ''JSONDecodeError'' msg)
              | Inr v \<Rightarrow> Inr v)"

definition loads :: "env \<Rightarrow> string \<Rightarrow> json io" where
  "loads env s =
     io_lift (case json_loads env s of
                Inl msg \<Rightarrow> Inl (Exception ''JSONDecodeError'' msg)
              | Inr v \<Rightarrow> Inr v)"

definition get_self :: "Tools io" where
  "get_self = (\<lambda>w. (Inr (tools w), w))"

definition auth_headers :: "Tools \<Rightarrow> (string \<times> string) list" where
  "auth_headers self =
     [(''Authorization'', ''Bearer '' @ ha_api_key (valves self)),
      (''Content-Type'', ''application/json'')]"

text \<open>\<^verbatim>\<open>d[k] = v\<close> on a dictionary: an existing key keeps its place.\<close>

fun dict_setitem :: "string \<Rightarrow> 'v \<Rightarrow> (string \<times> 'v) list \<Rightarrow> (string \<times> 'v) list" where
  "dict_setitem k v [] = [(k, v)]"
| "dict_setitem k v ((k', v') # rest) =
     (if k' = k then (k, v) # rest else (k', v') # dict_setitem k v rest)"

text \<open>\<^verbatim>\<open>self.entity_cache[domain] = entities\<close> and \<^verbatim>\<open>self.entity_cache = grouped\<close>.\<close>

definition cache_setitem :: "string \<Rightarrow> entity list \<Rightarrow> unit io" where
  "cache_setitem k es =
     (\<lambda>w. (Inr (),
        w\<lparr>tools := (tools w)\<lparr>entity_cache := dict_setitem k es (entity_cache (tools w))\<rparr>\<rparr>))"

definition cache_assign :: "grouped \<Rightarrow> unit io" where
  "cache_assign g = (\<lambda>w. (Inr (), w\<lparr>tools := (tools w)\<lparr>entity_cache := g\<rparr>\<rparr>))"

section \<open>Discovery\<close>

text \<open>
  The dictionary \<^verbatim>\<open>{"entity_id": ..., "friendly_name": ..., "domain": ...}\<close> built from
  one upstream state object. \<^verbatim>\<open>entity["entity_id"]\<close> must be a string for the string
  method \<open>meth\<close> called on it, \<^verbatim>\<open>entity["attributes"]\<close> must be a dictionary for
  \<^verbatim>\<open>.get\<close>; the friendly name is whatever value is stored, \<^verbatim>\<open>"unknown"\<close> when absent.
\<close>

definition to_entity :: "string \<Rightarrow> json \<Rightarrow> exc + entity" where
  "to_entity meth entity =
     bind_exc (bind_exc (py_getitem entity ''entity_id'') (str_method meth)) (\<lambda>i.
     bind_exc (py_getitem entity ''attributes'') (\<lambda>attributes.
     bind_exc (py_get attributes ''friendly_name'' (JStr ''unknown'')) (\<lambda>fn.
     Inr \<lparr>entity_id = i, friendly_name = fn, domain = split_first i\<rparr>)))"

text \<open>
  The list comprehension of \<^verbatim>\<open>getEntitiesByDomain\<close>: the condition
  \<^verbatim>\<open>entity["entity_id"].startswith(f"{domain}.")\<close> is evaluated first, the dictionary
  only for the states that pass it.
\<close>

fun filter_entities :: "string \<Rightarrow> json list \<Rightarrow> exc + entity list" where
  "filter_entities domain' [] = Inr []"
| "filter_entities domain' (entity # rest) =
     bind_exc (bind_exc (py_getitem entity ''entity_id'') (str_method ''startswith'')) (\<lambda>i.
       if startswith i (domain' @ ''.'') then
         bind_exc (to_entity ''split'' entity) (\<lambda>obj.
         bind_exc (filter_entities domain' rest) (\<lambda>objs. Inr (obj # objs)))
       else filter_entities domain' rest)"

definition entity_row :: "env \<Rightarrow> entity \<Rightarrow> string" where
  "entity_row env e =
     ''| `'' @ entity_id e @ ''` | '' @ py_str env (friendly_name e) @ '' |\<newline>''"

definition table_header :: string where
  "table_header = ''| Entity ID | Friendly Name |\<newline>|-----------|----------------|\<newline>''"

definition hint :: string where
  "hint =
     [CHR 0xF0, CHR 0x9F, CHR 0xA7, CHR 0xA0] @
     '' If you want to know the *current state* of one of these devices, '' @
     ''call `getAttributesForEntity(entity_id)` with the correct `entity_id`.''"

text \<open>
  \<^verbatim>\<open>getEntitiesByDomain\<close> returns a Python list: of entity dictionaries when discovery
  succeeds, of one error string otherwise.

  Every operation is one \<^verbatim>\<open>try\<close> block with one handler \<^verbatim>\<open>except Exception as e\<close>. For
  an operation \<open>op\<close>, the function \<open>op_try\<close> is the block and \<open>op\<close> the whole body. A
  \<^verbatim>\<open>return\<close> inside the block ends the operation with that value; the handler runs when
  the block raises an instance of \<^verbatim>\<open>Exception\<close>, and what the handler raises is raised
  by the operation.
\<close>

datatype entities_result =
    Entities "entity list"
  | Errors "string list"

definition getEntitiesByDomain_try :: "env \<Rightarrow> string \<Rightarrow> emitter option \<Rightarrow> entities_result io" where
  "getEntitiesByDomain_try env domain' em =
     io_bind (emit em (Status (''Querying entities in domain '' @ quote @ domain' @ quote) False)) (\<lambda>_.
     io_bind get_self (\<lambda>self.
     io_bind (requests_get env (ha_url (valves self) @ ''/api/states'') (auth_headers self)) (\<lambda>response.
     if status_code response \<noteq> 200 then
       io_bind (emit em (Status (''Error: '' @ str_int (status_code response)) True)) (\<lambda>_.
       io_return (Errors [''Error '' @ str_int (status_code response) @ '': '' @ resp_text response]))
     else
       io_bind (response_json response) (\<lambda>all_states.
       io_bind (io_lift (bind_exc (py_iter all_states) (filter_entities domain'))) (\<lambda>entities.
       io_bind (cache_setitem domain' entities) (\<lambda>_.
       io_bind (emit em (Message
         (''**Discovered entities in domain** `'' @ domain' @ ''`:\<newline>\<newline>'' @ table_header @
          concat (map (entity_row env) entities)))) (\<lambda>_.
       io_bind (emit em (Message hint)) (\<lambda>_.
       io_bind (emit em (Status ''Discovery complete'' True)) (\<lambda>_.
       io_return (Entities entities))))))))))"

definition getEntitiesByDomain :: "env \<Rightarrow> string \<Rightarrow> emitter option \<Rightarrow> entities_result io" where
  "getEntitiesByDomain env domain' em =
     try_except (getEntitiesByDomain_try env domain' em) (\<lambda>e.
       io_bind (emit em (Status (''Exception occurred: '' @ str_exc e) True)) (\<lambda>_.
       io_return (Errors [''An error occurred: '' @ str_exc e])))"

text \<open>\<^verbatim>\<open>grouped.setdefault(domain, []).append(obj)\<close>.\<close>

fun setdefault_append :: "string \<Rightarrow> entity \<Rightarrow> grouped \<Rightarrow> grouped" where
  "setdefault_append k obj [] = [(k, [obj])]"
| "setdefault_append k obj ((k', items) # rest) =
     (if k' = k then (k', items @ [obj]) # rest else (k', items) # setdefault_append k obj rest)"

fun group_entities :: "json list \<Rightarrow> grouped \<Rightarrow> exc + grouped" where
  "group_entities [] grouped = Inr grouped"
| "group_entities (entity # rest) grouped =
     bind_exc (to_entity ''split'' entity) (\<lambda>obj.
       group_entities rest (setdefault_append (domain obj) obj grouped))"

fun emit_tables :: "env \<Rightarrow> emitter option \<Rightarrow> grouped \<Rightarrow> unit io" where
  "emit_tables env em [] = io_return ()"
| "emit_tables env em ((domain', items) # rest) =
     io_bind (emit em (Message
       (''### Domain: `'' @ domain' @ ''`\<newline>\<newline>'' @ table_header @
        concat (map (entity_row env) items)))) (\<lambda>_.
     emit_tables env em rest)"

definition getAllEntities_try :: "env \<Rightarrow> emitter option \<Rightarrow> grouped io" where
  "getAllEntities_try env em =
     io_bind (emit em (Status ''Querying all entities'' False)) (\<lambda>_.
     io_bind get_self (\<lambda>self.
     io_bind (requests_get env (ha_url (valves self) @ ''/api/states'') (auth_headers self)) (\<lambda>response.
     if status_code response \<noteq> 200 then
       io_bind (emit em (Status (''Error: '' @ str_int (status_code response)) True)) (\<lambda>_.
       io_return [])
     else
       io_bind (response_json response) (\<lambda>all_states.
       io_bind (io_lift (bind_exc (py_iter all_states) (\<lambda>states. group_entities states []))) (\<lambda>grouped.
       io_bind (cache_assign grouped) (\<lambda>_.
       io_bind (emit_tables env em grouped) (\<lambda>_.
       io_bind (emit em (Status ''Full discovery complete'' True)) (\<lambda>_.
       io_return grouped))))))))"

definition getAllEntities :: "env \<Rightarrow> emitter option \<Rightarrow> grouped io" where
  "getAllEntities env em =
     try_except (getAllEntities_try env em) (\<lambda>e.
       io_bind (emit em (Status (''Exception occurred: '' @ str_exc e) True)) (\<lambda>_.
       io_return []))"

section \<open>Control\<close>

definition request_details :: "string \<Rightarrow> string \<Rightarrow> string" where
  "request_details endpoint payload =
     ''**Request Details**\<newline>- Endpoint: `'' @ endpoint @
     ''`\<newline>- Payload: ```json\<newline>'' @ payload @ ''\<newline>```''"

definition response_details :: "response \<Rightarrow> string" where
  "response_details response =
     ''**Response Details**\<newline>- Status: `'' @ str_int (status_code response) @
     ''`\<newline>- Body: ```json\<newline>'' @ resp_text response @ ''\<newline>```''"

definition service_endpoint :: "Tools \<Rightarrow> string \<Rightarrow> string \<Rightarrow> string" where
  "service_endpoint self domain' service =
     ha_url (valves self) @ ''/api/services/'' @ domain' @ ''/'' @ service"

definition controlEntity_record ::
  "response \<Rightarrow> string \<Rightarrow> string \<Rightarrow> string \<Rightarrow> json \<Rightarrow> json" where
  "controlEntity_record response entityID service endpoint request_payload =
     JObj [(''success'', JBool (status_code response = 200)),
           (''status_code'', JInt (status_code response)),
           (''entity'', JStr entityID),
           (''service'', JStr service),
           (''request_url'', JStr endpoint),
           (''request_payload'', request_payload),
           (''response'', JStr (resp_text response))]"

definition controlEntity_try ::
  "env \<Rightarrow> string \<Rightarrow> string \<Rightarrow> string \<Rightarrow> emitter option \<Rightarrow> string io" where
  "controlEntity_try env entityID domain' service em =
     io_bind (emit em (Status (''Sending '' @ service @ '' command to '' @ entityID) False)) (\<lambda>_.
     io_bind get_self (\<lambda>self.
     let endpoint = service_endpoint self domain' service;
         payload = json_dumps env (JObj [(''entity_id'', JStr entityID)])
     in
     io_bind (emit em (Message (request_details endpoint payload))) (\<lambda>_.
     io_bind (requests_post env endpoint payload (auth_headers self)) (\<lambda>response.
     io_bind (emit em (Message (response_details response))) (\<lambda>_.
     io_bind (emit em (Status ''Command complete'' True)) (\<lambda>_.
     io_bind (loads env payload) (\<lambda>request_payload.
     io_return (json_dumps env
       (controlEntity_record response entityID service endpoint request_payload)))))))))"

definition error_record :: "env \<Rightarrow> exc \<Rightarrow> string" where
  "error_record env e =
     json_dumps env (JObj [(''success'', JBool False), (''error'', JStr (str_exc e))])"

definition controlEntity ::
  "env \<Rightarrow> string \<Rightarrow> string \<Rightarrow> string \<Rightarrow> emitter option \<Rightarrow> string io" where
  "controlEntity env entityID domain' service em =
     try_except (controlEntity_try env entityID domain' service em) (\<lambda>e.
       io_bind (emit em (Status (''Error occurred: '' @ str_exc e) True)) (\<lambda>_.
       io_return (error_record env e)))"

text \<open>\<^verbatim>\<open>{"entity_id": entity_id, **data}\<close>: the keys of \<open>data\<close> are stored one by one.\<close>

definition merge_payload :: "string \<Rightarrow> (string \<times> json) list \<Rightarrow> (string \<times> json) list" where
  "merge_payload entity_id' data =
     fold (\<lambda>kv. dict_setitem (fst kv) (snd kv)) data [(''entity_id'', JStr entity_id')]"

definition setEntityAttribute_record ::
  "response \<Rightarrow> string \<Rightarrow> string \<Rightarrow> string \<Rightarrow> (string \<times> json) list \<Rightarrow> json" where
  "setEntityAttribute_record response entity_id' domain' service payload_dict =
     JObj [(''success'', JBool (status_code response = 200)),
           (''status_code'', JInt (status_code response)),
           (''entity'', JStr entity_id'),
           (''domain'', JStr domain'),
           (''service'', JStr service),
           (''payload'', JObj payload_dict),
           (''response'', JStr (resp_text response))]"

definition setEntityAttribute_try ::
  "env \<Rightarrow> string \<Rightarrow> string \<Rightarrow> string \<Rightarrow> (string \<times> json) list \<Rightarrow> emitter option \<Rightarrow> string io" where
  "setEntityAttribute_try env entity_id' domain' service data em =
     io_bind (emit em
       (Status (''Sending `'' @ service @ ''` with data to `'' @ entity_id' @ ''`'') False)) (\<lambda>_.
     io_bind get_self (\<lambda>self.
     let endpoint = service_endpoint self domain' service;
         payload_dict = merge_payload entity_id' data;
         payload = json_dumps env (JObj payload_dict)
     in
     io_bind (emit em (Message (request_details endpoint payload))) (\<lambda>_.
     io_bind (requests_post env endpoint payload (auth_headers self)) (\<lambda>response.
     io_bind (emit em (Message (response_details response))) (\<lambda>_.
     io_bind (emit em (Status ''Attribute change complete'' True)) (\<lambda>_.
     io_return (json_dumps env
       (setEntityAttribute_record response entity_id' domain' service payload_dict))))))))"

definition setEntityAttribute ::
  "env \<Rightarrow> string \<Rightarrow> string \<Rightarrow> string \<Rightarrow> (string \<times> json) list \<Rightarrow> emitter option \<Rightarrow> string io" where
  "setEntityAttribute env entity_id' domain' service data em =
     try_except (setEntityAttribute_try env entity_id' domain' service data em) (\<lambda>e.
       io_bind (emit em (Status (''Error occurred: '' @ str_exc e) True)) (\<lambda>_.
       io_return (error_record env e)))"

section \<open>Services and state\<close>

text \<open>
  \<^verbatim>\<open>next((s for s in all_services if s["domain"] == domain), None)\<close>: the records
  are tested in order up to the first match; a value equals the string \<^verbatim>\<open>domain\<close>
  only when it is that string.
\<close>

fun find_matching :: "string \<Rightarrow> json list \<Rightarrow> exc + json option" where
  "find_matching domain' [] = Inr None"
| "find_matching domain' (s # rest) =
     bind_exc (py_getitem s ''domain'') (\<lambda>d.
       if d = JStr domain' then Inr (Some s) else find_matching domain' rest)"

definition no_services :: "string \<Rightarrow> emitter option \<Rightarrow> json io" where
  "no_services domain' em =
     io_bind (emit em (Message (''No services found for domain `'' @ domain' @ ''`''))) (\<lambda>_.
     io_return (JList []))"

definition getAvailableServicesForDomain_try :: "env \<Rightarrow> string \<Rightarrow> emitter option \<Rightarrow> json io" where
  "getAvailableServicesForDomain_try env domain' em =
     io_bind (emit em
       (Status (''Fetching available services for domain '' @ quote @ domain' @ quote) False)) (\<lambda>_.
     io_bind get_self (\<lambda>self.
     io_bind (requests_get env (ha_url (valves self) @ ''/api/services'') (auth_headers self)) (\<lambda>response.
     if status_code response \<noteq> 200 then
       io_bind (emit em (Status (''Error: '' @ str_int (status_code response)) True)) (\<lambda>_.
       io_return (JList []))
     else
       io_bind (response_json response) (\<lambda>all_services.
       io_bind (io_lift (bind_exc (py_iter all_services) (find_matching domain'))) (\<lambda>matching.
       case matching of
         None \<Rightarrow> no_services domain' em
       | Some m \<Rightarrow>
           if \<not> truthy m then no_services domain' em
           else
             io_bind (io_lift (py_getitem m ''services'')) (\<lambda>services.
             io_bind (io_lift (py_iter services)) (\<lambda>names.
             io_bind (emit em (Message
               (''**Available services for domain** `'' @ domain' @ ''`:\<newline>\<newline>'' @
                concat (map (\<lambda>s. ''- `'' @ py_str env s @ ''`\<newline>'') names)))) (\<lambda>_.
             io_bind (emit em (Status ''Service list complete'' True)) (\<lambda>_.
             io_return services)))))))))"

definition getAvailableServicesForDomain :: "env \<Rightarrow> string \<Rightarrow> emitter option \<Rightarrow> json io" where
  "getAvailableServicesForDomain env domain' em =
     try_except (getAvailableServicesForDomain_try env domain' em) (\<lambda>e.
       io_bind (emit em (Status (''Error occurred: '' @ str_exc e) True)) (\<lambda>_.
       io_return (JList [])))"

definition getAttributesForEntity_try ::
  "env \<Rightarrow> string \<Rightarrow> emitter option \<Rightarrow> (string \<times> json) list io" where
  "getAttributesForEntity_try env entity_id' em =
     io_bind (emit em (Status (''Querying current state of `'' @ entity_id' @ ''`'') False)) (\<lambda>_.
     io_bind get_self (\<lambda>self.
     io_bind (requests_get env (ha_url (valves self) @ ''/api/states/'' @ entity_id')
                (auth_headers self)) (\<lambda>response.
     if status_code response \<noteq> 200 then
       io_bind (emit em (Status (''Error: '' @ str_int (status_code response)) True)) (\<lambda>_.
       io_return [])
     else
       io_bind (response_json response) (\<lambda>data.
       io_bind (io_lift (py_get data ''state'' JNull)) (\<lambda>state.
       io_bind (io_lift (py_get data ''attributes'' (JObj []))) (\<lambda>attributes.
       io_bind (io_lift (py_items attributes)) (\<lambda>items.
       io_bind (emit em (Message
         (''**Current state for `'' @ entity_id' @ ''`**: `'' @ py_str env state @
          ''`\<newline>\<newline>'' @ ''**Attributes:**\<newline>\<newline>'' @
          concat (map (\<lambda>kv. ''- **'' @ fst kv @ ''**: `'' @ py_str env (snd kv) @ ''`\<newline>'')
                    items)))) (\<lambda>_.
       io_bind (emit em (Status ''Attribute query complete'' True)) (\<lambda>_.
       io_return [(''state'', state), (''attributes'', attributes)])))))))))"

definition getAttributesForEntity ::
  "env \<Rightarrow> string \<Rightarrow> emitter option \<Rightarrow> (string \<times> json) list io" where
  "getAttributesForEntity env entity_id' em =
     try_except (getAttributesForEntity_try env entity_id' em) (\<lambda>e.
       io_bind (emit em (Status (''Error occurred: '' @ str_exc e) True)) (\<lambda>_.
       io_return [(''error'', JStr (str_exc e))]))"

section \<open>Notions used to state the properties\<close>

text \<open>The \<^verbatim>\<open>GET\<close> request an operation sends for a path of the hub's API.\<close>

definition get_request :: "Tools \<Rightarrow> string \<Rightarrow> http_request" where
  "get_request self path =
     \<lparr>req_method = GET, req_url = ha_url (valves self) @ path,
      req_headers = auth_headers self, req_data = None\<rparr>"

text \<open>
  The condition of the list comprehension of \<^verbatim>\<open>getEntitiesByDomain\<close>, as a predicate
  on upstream state objects: the state has a string \<^verbatim>\<open>entity_id\<close> that starts with
  the requested domain followed by a full stop.
\<close>

definition keeps :: "string \<Rightarrow> json \<Rightarrow> bool" where
  "keeps d s = (case py_getitem s ''entity_id'' of Inr (JStr i) \<Rightarrow> startswith i (d @ ''.'') | _ \<Rightarrow> False)"

text \<open>The entities grouped under a key, none when the key is absent.\<close>

definition items_of :: "grouped \<Rightarrow> string \<Rightarrow> entity list" where
  "items_of g k = (case map_of g k of None \<Rightarrow> [] | Some es \<Rightarrow> es)"

text \<open>
  Two-state invariants of operations: \<open>steps R m\<close> says that \<open>m\<close> takes every state to
  an \<open>R\<close>-related one, whatever it returns or raises; a \<open>frame\<close> is a reflexive and
  transitive relation that ignores the events handed to the sink.
\<close>

definition frame :: "(world \<Rightarrow> world \<Rightarrow> bool) \<Rightarrow> bool" where
  "frame R = ((\<forall>a. R a a) \<and> (\<forall>a b c. R a b \<longrightarrow> R b c \<longrightarrow> R a c) \<and>
              (\<forall>w evs. R w (w\<lparr>emitted := evs\<rparr>)))"

definition steps :: "(world \<Rightarrow> world \<Rightarrow> bool) \<Rightarrow> 'a io \<Rightarrow> bool" where
  "steps R m = (\<forall>w. R w (snd (m w)))"

text \<open>
  A sink is accepting when it is callable and returns normally on every event, whatever
  it has received before.
\<close>

definition accepting :: "emitter option \<Rightarrow> bool" where
  "accepting em = (\<exists>sink. em = Some sink \<and> (\<forall>h ev. sink h ev = None))"

text \<open>
  A sink accepts a sequence of events, after the events \<open>h\<close> it has received, when it is
  callable and returns normally on each of them in turn. No sink is needed to accept no
  event; \<^verbatim>\<open>None\<close> accepts no other sequence.
\<close>

fun accepts :: "emitter option \<Rightarrow> event list \<Rightarrow> event list \<Rightarrow> bool" where
  "accepts em h [] = True"
| "accepts None h (ev # evs) = False"
| "accepts (Some sink) h (ev # evs) = (sink h ev = None \<and> accepts (Some sink) (h @ [ev]) evs)"



text \<open>The \<^verbatim>\<open>POST\<close> request that invokes a service with a given body.\<close>

definition post_request :: "Tools \<Rightarrow> string \<Rightarrow> string \<Rightarrow> string \<Rightarrow> http_request" where
  "post_request self domain' service payload =
     \<lparr>req_method = POST, req_url = service_endpoint self domain' service,
      req_headers = auth_headers self, req_data = Some payload\<rparr>"

text \<open>
  A record of the services array that is about another domain: it has a field
  \<^verbatim>\<open>domain\<close>, and the field is not the requested domain.
\<close>

definition other_domain :: "string \<Rightarrow> json \<Rightarrow> bool" where
  "other_domain domain' s =
     (case py_getitem s ''domain'' of Inr d \<Rightarrow> d \<noteq> JStr domain' | Inl e \<Rightarrow> False)"


section \<open>Scenarios\<close>

text \<open>
  Concrete hubs, sinks and states on which the properties below are exercised. The
  codec of a scenario writes JSON without escapes and reads back the one payload the
  scenarios send; no scenario renders a list or a dictionary with \<^verbatim>\<open>repr\<close>.
\<close>

fun join :: "string \<Rightarrow> string list \<Rightarrow> string" where
  "join sep [] = []"
| "join sep [x] = x"
| "join sep (x # y # ys) = x @ sep @ join sep (y # ys)"

fun show_json :: "json \<Rightarrow> string" where
  "show_json JNull = ''null''"
| "show_json (JBool b) = (if b then ''true'' else ''false'')"
| "show_json (JInt i) = str_int i"
| "show_json (JFloat r) = r"
| "show_json (JStr s) = [CHR 0x22] @ s @ [CHR 0x22]"
| "show_json (JList xs) = ''['' @ join '', '' (map show_json xs) @ '']''"
| "show_json (JObj kvs) =
     ''{'' @ join '', '' (map (\<lambda>kv. [CHR 0x22] @ fst kv @ [CHR 0x22] @ '': '' @ show_json (snd kv)) kvs) @ ''}''"


definition scenario_loads :: "string \<Rightarrow> string + json" where
  "scenario_loads s =
     (if s = show_json (JObj [(''entity_id'', JStr ''light.a'')])
      then Inr (JObj [(''entity_id'', JStr ''light.a'')])
      else Inl ''Expecting value'')"

definition hub_env :: "(http_request \<Rightarrow> string + response) \<Rightarrow> env" where
  "hub_env hub =
     \<lparr>requests = hub, json_dumps = show_json, json_loads = scenario_loads,
      py_repr = (\<lambda>v. ''(repr)'')\<rparr>"

definition quiet_sink :: emitter where
  "quiet_sink h ev = None"

definition w0 :: world where
  "w0 = \<lparr>tools = init, emitted = [], sent = []\<rparr>"

definition ok_response :: "json \<Rightarrow> response" where
  "ok_response v = \<lparr>status_code = 200, resp_text = ''(body)'', resp_json = Inr v\<rparr>"

definition dotted_states :: json where
  "dotted_states = JList [JObj [(''entity_id'', JStr ''a.b.c''), (''attributes'', JObj [])]]"

definition light_states :: json where
  "light_states =
     JList [JObj [(''entity_id'', JStr ''light.a''),
                  (''attributes'', JObj [(''friendly_name'', JStr ''A'')])],
            JObj [(''entity_id'', JStr ''switch.b''), (''attributes'', JObj [])]]"

definition light_a :: entity where
  "light_a = \<lparr>entity_id = ''light.a'', friendly_name = JStr ''A'', domain = ''light''\<rparr>"

definition a_b_c :: entity where
  "a_b_c = \<lparr>entity_id = ''a.b.c'', friendly_name = JStr ''unknown'', domain = ''a''\<rparr>"


definition dotted_hub :: "http_request \<Rightarrow> string + response" where
  "dotted_hub rq = Inr (ok_response dotted_states)"

definition light_hub :: "http_request \<Rightarrow> string + response" where
  "light_hub rq = Inr (ok_response light_states)"

definition home_states :: json where
  "home_states =
     JList [JObj [(''entity_id'', JStr ''light.a''),
                  (''attributes'', JObj [(''friendly_name'', JStr ''A'')])],
            JObj [(''entity_id'', JStr ''switch.b''), (''attributes'', JObj [])],
            JObj [(''entity_id'', JStr ''light.c''), (''attributes'', JObj [])]]"

definition home_hub :: "http_request \<Rightarrow> string + response" where
  "home_hub rq = Inr (ok_response home_states)"

definition switch_b :: entity where
  "switch_b = \<lparr>entity_id = ''switch.b'', friendly_name = JStr ''unknown'', domain = ''switch''\<rparr>"

definition light_c :: entity where
  "light_c = \<lparr>entity_id = ''light.c'', friendly_name = JStr ''unknown'', domain = ''light''\<rparr>"

definition home_grouped :: grouped where
  "home_grouped = [(''light'', [light_a, light_c]), (''switch'', [switch_b])]"

text \<open>A state whose cache already holds two domains.\<close>

definition w_cached :: world where
  "w_cached =
     \<lparr>tools = init\<lparr>entity_cache := [(''switch'', [switch_b]), (''light'', [])]\<rparr>,
      emitted = [], sent = []\<rparr>"

text \<open>A hub that cannot be reached, and a sink that raises on every event.\<close>

definition down_hub :: "http_request \<Rightarrow> string + response" where
  "down_hub rq = Inl ''Connection refused''"

definition failing_sink :: emitter where
  "failing_sink h ev = Some (Exception ''RuntimeError'' ''sink closed'')"


text \<open>
  A hub that answers 404 for the state of an entity, and one that answers 200 with an
  empty JSON object.
\<close>

definition not_found :: response where
  "not_found = \<lparr>status_code = 404, resp_text = ''404: Not Found'', resp_json = Inl ''Expecting value''\<rparr>"

definition missing_hub :: "http_request \<Rightarrow> string + response" where
  "missing_hub rq = Inr not_found"

definition bare_hub :: "http_request \<Rightarrow> string + response" where
  "bare_hub rq = Inr (ok_response (JObj []))"


text \<open>Hubs that answer a service call with 201 and with 200, and a payload of extra data.\<close>

definition created :: response where
  "created = \<lparr>status_code = 201, resp_text = ''[]'', resp_json = Inr (JList [])\<rparr>"

definition created_hub :: "http_request \<Rightarrow> string + response" where
  "created_hub rq = Inr created"

definition accepted :: response where
  "accepted = \<lparr>status_code = 200, resp_text = ''[]'', resp_json = Inr (JList [])\<rparr>"

definition accepted_hub :: "http_request \<Rightarrow> string + response" where
  "accepted_hub rq = Inr accepted"

definition dimming :: "(string \<times> json) list" where
  "dimming = [(''brightness_pct'', JInt 40), (''entity_id'', JStr ''light.other'')]"


text \<open>A hub whose services array lists the domain \<^verbatim>\<open>light\<close> twice.\<close>

definition light_record :: json where
  "light_record =
     JObj [(''domain'', JStr ''light''),
           (''services'', JObj [(''turn_on'', JObj []), (''turn_off'', JObj [])])]"

definition switch_record :: json where
  "switch_record = JObj [(''domain'', JStr ''switch''), (''services'', JObj [(''toggle'', JObj [])])]"

definition light_again :: json where
  "light_again = JObj [(''domain'', JStr ''light''), (''services'', JObj [(''flash'', JObj [])])]"

definition services_hub :: "http_request \<Rightarrow> string + response" where
  "services_hub rq = Inr (ok_response (JList [switch_record, light_record, light_again]))"


text \<open>
  Sinks that raise on some events only: on the first event, on the second, on a status
  with \<^verbatim>\<open>done\<close> set, on a message.
\<close>

definition first_failing_sink :: emitter where
  "first_failing_sink h ev = (if h = [] then Some (Exception ''RuntimeError'' ''sink closed'') else None)"

definition second_failing_sink :: emitter where
  "second_failing_sink h ev =
     (if length h = 1 then Some (Exception ''RuntimeError'' ''sink closed'') else None)"

fun done_failing_sink :: "event list \<Rightarrow> event \<Rightarrow> exc option" where
  "done_failing_sink h (Status d done) =
     (if done then Some (Exception ''RuntimeError'' ''sink closed'') else None)"
| "done_failing_sink h (Message m) = None"

fun message_failing_sink :: "event list \<Rightarrow> event \<Rightarrow> exc option" where
  "message_failing_sink h (Status d done) = None"
| "message_failing_sink h (Message m) = Some (Exception ''RuntimeError'' ''sink closed'')"

text \<open>
  A hub whose services array holds a record without the field \<^verbatim>\<open>domain\<close>, and a hub
  that answers 200 with a body that is not JSON.
\<close>

definition no_domain_record :: json where
  "no_domain_record = JObj [(''services'', JObj [(''turn_on'', JObj [])])]"

definition no_domain_hub :: "http_request \<Rightarrow> string + response" where
  "no_domain_hub rq = Inr (ok_response (JList [no_domain_record]))"

definition garbled :: response where
  "garbled = \<lparr>status_code = 200, resp_text = ''<html>'', resp_json = Inl ''Expecting value''\<rparr>"

definition garbled_hub :: "http_request \<Rightarrow> string + response" where
  "garbled_hub rq = Inr garbled"


section \<open>Running the operations\<close>

lemmas scenario_defs = quiet_sink_def w0_def ok_response_def hub_env_def dotted_states_def
  light_states_def light_a_def a_b_c_def init_def dotted_hub_def light_hub_def home_states_def
  home_hub_def switch_b_def light_c_def home_grouped_def w_cached_def down_hub_def
  failing_sink_def not_found_def missing_hub_def bare_hub_def scenario_loads_def created_def
  created_hub_def accepted_def accepted_hub_def dimming_def light_record_def switch_record_def
  light_again_def services_hub_def first_failing_sink_def second_failing_sink_def
  no_domain_record_def no_domain_hub_def garbled_def garbled_hub_def

lemmas io_defs = io_bind_def io_return_def io_lift_def try_except_def emit_def get_self_def
  requests_get_def requests_post_def request_def response_json_def loads_def cache_setitem_def
  cache_assign_def

lemma bind_exc_Inr_iff: "(bind_exc m f = Inr y) = (\<exists>x. m = Inr x \<and> f x = Inr y)"
  by (cases m) simp_all

lemma io_bind_Inr_iff:
  "(io_bind m f w = (Inr y, w')) = (\<exists>x w1. m w = (Inr x, w1) \<and> f x w1 = (Inr y, w'))"
  by (auto simp: io_bind_def split: prod.splits sum.splits)

lemma io_return_iff: "(io_return x w = (Inr y, w')) = (y = x \<and> w' = w)"
  by (auto simp: io_return_def)

lemma io_lift_iff: "(io_lift r w = (Inr x, w')) = (r = Inr x \<and> w' = w)"
  by (auto simp: io_lift_def)

lemma emit_Inr_iff:
  "(emit em ev w = (Inr u, w')) =
     (\<exists>sink. em = Some sink \<and> sink (emitted w) ev = None \<and> w' = w\<lparr>emitted := emitted w @ [ev]\<rparr>)"
  by (auto simp: emit_def split: option.splits)

lemma get_self_iff: "(get_self w = (r, w')) = (r = Inr (tools w) \<and> w' = w)"
  by (auto simp: get_self_def)

lemma request_Inr_iff:
  "(request env rq w = (Inr r, w')) = (requests env rq = Inr r \<and> w' = w\<lparr>sent := sent w @ [rq]\<rparr>)"
  by (auto simp: request_def split: sum.splits)

lemma response_json_Inr_iff:
  "(response_json r w = (Inr v, w')) = (resp_json r = Inr v \<and> w' = w)"
  by (auto simp: response_json_def io_lift_def split: sum.splits)

lemma loads_Inr_iff:
  "(loads env s w = (Inr v, w')) = (json_loads env s = Inr v \<and> w' = w)"
  by (auto simp: loads_def io_lift_def split: sum.splits)

lemma cache_setitem_iff:
  "(cache_setitem k es w = (r, w')) =
     (r = Inr () \<and> w' = w\<lparr>tools := (tools w)\<lparr>entity_cache := dict_setitem k es (entity_cache (tools w))\<rparr>\<rparr>)"
  by (auto simp: cache_setitem_def)

lemma cache_assign_iff:
  "(cache_assign g w = (r, w')) = (r = Inr () \<and> w' = w\<lparr>tools := (tools w)\<lparr>entity_cache := g\<rparr>\<rparr>)"
  by (auto simp: cache_assign_def)

lemma try_except_Inr_iff:
  "(try_except m h w = (Inr y, w')) =
     (m w = (Inr y, w') \<or> (\<exists>e w1. m w = (Inl e, w1) \<and> is_Exception e \<and> h e w1 = (Inr y, w')))"
  by (auto simp: try_except_def split: prod.splits sum.splits)

lemmas run_iffs = io_bind_Inr_iff io_return_iff io_lift_iff emit_Inr_iff get_self_iff
  request_Inr_iff response_json_Inr_iff loads_Inr_iff cache_setitem_iff cache_assign_iff
  bind_exc_Inr_iff requests_get_def requests_post_def

lemma getEntitiesByDomain_try_Entities:
  assumes "getEntitiesByDomain_try env d em w = (Inr (Entities es), w')"
  shows "\<exists>response all_states states.
           requests env (get_request (tools w) ''/api/states'') = Inr response \<and>
           status_code response = 200 \<and> resp_json response = Inr all_states \<and>
           py_iter all_states = Inr states \<and> filter_entities d states = Inr es \<and>
           tools w' = (tools w)\<lparr>entity_cache := dict_setitem d es (entity_cache (tools w))\<rparr>"
  using assms
  by (auto simp: getEntitiesByDomain_try_def get_request_def run_iffs split: if_splits)

lemma getEntitiesByDomain_Entities:
  "getEntitiesByDomain env d em w = (Inr (Entities es), w') \<Longrightarrow>
   getEntitiesByDomain_try env d em w = (Inr (Entities es), w')"
  by (auto simp: getEntitiesByDomain_def try_except_Inr_iff run_iffs)


lemma takeWhile_dot:
  "takeWhile (\<lambda>c. c \<noteq> CHR ''.'') (d @ CHR ''.'' # r) = takeWhile (\<lambda>c. c \<noteq> CHR ''.'') d"
  by (induction d) simp_all

lemma split_first_startswith:
  assumes "startswith i (d @ ''.'')"
  shows "split_first i = split_first d"
proof -
  from assms obtain r where i: "i = d @ CHR ''.'' # r"
    by (auto simp: startswith_def prefix_def)
  show ?thesis
    unfolding i split_first_def by (rule takeWhile_dot)
qed

lemma split_first_no_dot: "CHR ''.'' \<notin> set d \<Longrightarrow> split_first d = d"
  unfolding split_first_def by (induction d) auto

lemma to_entity_Inr:
  "to_entity meth s = Inr e \<Longrightarrow>
     py_getitem s ''entity_id'' = Inr (JStr (entity_id e)) \<and> domain e = split_first (entity_id e)"
  by (auto simp: to_entity_def bind_exc_Inr_iff elim!: str_method.elims)

lemma filter_entities_Inr:
  "filter_entities d states = Inr es \<Longrightarrow>
     map (to_entity ''split'') (filter (keeps d) states) = map Inr es \<and>
     (\<forall>e \<in> set es. startswith (entity_id e) (d @ ''.'') \<and> domain e = split_first (entity_id e))"
proof (induction states arbitrary: es)
  case Nil
  then show ?case by simp
next
  case (Cons s states)
  from Cons.prems obtain i where i: "py_getitem s ''entity_id'' = Inr (JStr i)"
    by (auto simp: bind_exc_Inr_iff elim!: str_method.elims)
  define keep where "keep = startswith i (d @ ''.'')"
  show ?case
  proof (cases keep)
    case True
    then have True: "startswith i (d @ ''.'')" by (simp add: keep_def)
    with Cons.prems i obtain obj objs where
      o: "to_entity ''split'' s = Inr obj" "filter_entities d states = Inr objs" "es = obj # objs"
      by (auto simp: bind_exc_Inr_iff)
    from to_entity_Inr[OF o(1)] i have "entity_id obj = i" "domain obj = split_first i" by auto
    with Cons.IH[OF o(2)] o True i show ?thesis by (simp add: keeps_def)
  next
    case False
    then have False: "\<not> startswith i (d @ ''.'')" by (simp add: keep_def)
    with Cons.prems i have "filter_entities d states = Inr es" by (simp add: bind_exc_Inr_iff)
    from Cons.IH[OF this] False i show ?thesis by (simp add: keeps_def)
  qed
qed



subsection \<open>Grouping\<close>

lemma map_fst_setdefault_append:
  "map fst (setdefault_append k obj g) = (if k \<in> fst ` set g then map fst g else map fst g @ [k])"
proof (induction g)
  case Nil
  then show ?case by simp
next
  case (Cons p g)
  obtain k' items where p: "p = (k', items)" by (cases p)
  show ?case using Cons.IH by (simp add: p)
qed

lemma keys_setdefault_append:
  "fst ` set (setdefault_append k obj g) = insert k (fst ` set g)"
proof (induction g)
  case Nil
  then show ?case by simp
next
  case (Cons p g)
  obtain k' items where p: "p = (k', items)" by (cases p)
  show ?case using Cons.IH by (auto simp: p)
qed

lemma distinct_setdefault_append:
  "distinct (map fst g) \<Longrightarrow> distinct (map fst (setdefault_append k obj g))"
  by (simp add: map_fst_setdefault_append)

lemma items_of_setdefault_append:
  "items_of (setdefault_append k obj g) k' =
     (if k' = k then items_of g k @ [obj] else items_of g k')"
  by (induction g) (auto simp: items_of_def)

lemma mset_setdefault_append:
  "mset (concat (map snd (setdefault_append k obj g))) = mset (concat (map snd g)) + {#obj#}"
  by (induction g) auto

lemma nonempty_setdefault_append:
  "[] \<notin> snd ` set g \<Longrightarrow> [] \<notin> snd ` set (setdefault_append k obj g)"
  by (induction g) (force split: if_splits)+

lemma group_entities_Inr:
  "group_entities states acc = Inr g \<Longrightarrow>
     \<exists>ents. map (to_entity ''split'') states = map Inr ents \<and>
       (\<forall>k. items_of g k = items_of acc k @ filter (\<lambda>e. domain e = k) ents) \<and>
       mset (concat (map snd g)) = mset (concat (map snd acc)) + mset ents \<and>
       (distinct (map fst acc) \<longrightarrow> distinct (map fst g)) \<and>
       ([] \<notin> snd ` set acc \<longrightarrow> [] \<notin> snd ` set g) \<and>
       fst ` set g = fst ` set acc \<union> domain ` set ents"
proof (induction states arbitrary: acc)
  case Nil
  then show ?case by simp
next
  case (Cons s states)
  from Cons.prems obtain obj where
    obj: "to_entity ''split'' s = Inr obj" and
    rest: "group_entities states (setdefault_append (domain obj) obj acc) = Inr g"
    by (auto simp: bind_exc_Inr_iff)
  from Cons.IH[OF rest] obtain ents where
    ents: "map (to_entity ''split'') states = map Inr ents"
      "\<forall>k. items_of g k = items_of (setdefault_append (domain obj) obj acc) k @ filter (\<lambda>e. domain e = k) ents"
      "mset (concat (map snd g)) = mset (concat (map snd (setdefault_append (domain obj) obj acc))) + mset ents"
      "distinct (map fst (setdefault_append (domain obj) obj acc)) \<longrightarrow> distinct (map fst g)"
      "[] \<notin> snd ` set (setdefault_append (domain obj) obj acc) \<longrightarrow> [] \<notin> snd ` set g"
      "fst ` set g = fst ` set (setdefault_append (domain obj) obj acc) \<union> domain ` set ents"
    by blast
  have keys: "fst ` set (setdefault_append (domain obj) obj acc) = insert (domain obj) (fst ` set acc)"
    by (rule keys_setdefault_append)
  have "map (to_entity ''split'') (s # states) = map Inr (obj # ents)"
    using obj ents(1) by simp
  moreover have "\<forall>k. items_of g k = items_of acc k @ filter (\<lambda>e. domain e = k) (obj # ents)"
    using ents(2) by (simp add: items_of_setdefault_append)
  moreover have "mset (concat (map snd g)) = mset (concat (map snd acc)) + mset (obj # ents)"
    using ents(3) by (simp add: mset_setdefault_append)
  moreover have "distinct (map fst acc) \<longrightarrow> distinct (map fst g)"
    using ents(4) distinct_setdefault_append by blast
  moreover have "[] \<notin> snd ` set acc \<longrightarrow> [] \<notin> snd ` set g"
    using ents(5) nonempty_setdefault_append by blast
  moreover have "fst ` set g = fst ` set acc \<union> domain ` set (obj # ents)"
    using ents(6) keys by auto
  ultimately show ?case by blast
qed



subsection \<open>Invariants along an operation\<close>

lemma steps_return: "frame R \<Longrightarrow> steps R (io_return x)"
  by (simp add: steps_def frame_def io_return_def)

lemma steps_lift: "frame R \<Longrightarrow> steps R (io_lift r)"
  by (simp add: steps_def frame_def io_lift_def)

lemma steps_get_self: "frame R \<Longrightarrow> steps R get_self"
  by (simp add: steps_def frame_def get_self_def)

lemma steps_response_json: "frame R \<Longrightarrow> steps R (response_json r)"
  by (simp add: response_json_def steps_lift)

lemma steps_loads: "frame R \<Longrightarrow> steps R (loads env s)"
  by (simp add: loads_def steps_lift)

lemma steps_emit: "frame R \<Longrightarrow> steps R (emit em ev)"
  by (auto simp: steps_def frame_def emit_def split: option.splits)

lemma steps_request:
  "(\<And>w. R w (w\<lparr>sent := sent w @ [rq]\<rparr>)) \<Longrightarrow> steps R (request env rq)"
  by (auto simp: steps_def request_def split: sum.splits)

lemma steps_bind:
  assumes "frame R" "steps R m" "\<And>x. steps R (f x)"
  shows "steps R (io_bind m f)"
proof -
  have "R w (snd (io_bind m f w))" for w
  proof -
    obtain r w1 where Pair: "m w = (r, w1)" by force
    from assms(2) Pair have 1: "R w w1" by (auto simp: steps_def dest: spec[of _ w])
    show ?thesis
    proof (cases r)
      case (Inl e)
      with Pair 1 show ?thesis by (simp add: io_bind_def)
    next
      case (Inr x)
      from assms(3)[of x] have "R w1 (snd (f x w1))" by (simp add: steps_def)
      with 1 assms(1) have "R w (snd (f x w1))" unfolding frame_def by blast
      with Pair Inr show ?thesis by (simp add: io_bind_def)
    qed
  qed
  then show ?thesis by (simp add: steps_def)
qed

lemma steps_try:
  assumes "frame R" "steps R m" "\<And>e. steps R (h e)"
  shows "steps R (try_except m h)"
proof -
  have "R w (snd (try_except m h w))" for w
  proof -
    obtain r w1 where Pair: "m w = (r, w1)" by force
    from assms(2) Pair have 1: "R w w1" by (auto simp: steps_def dest: spec[of _ w])
    show ?thesis
    proof (cases r)
      case (Inr x)
      with Pair 1 show ?thesis by (simp add: try_except_def)
    next
      case (Inl e)
      from assms(3)[of e] have "R w1 (snd (h e w1))" by (simp add: steps_def)
      with 1 assms(1) have "R w (snd (h e w1))" unfolding frame_def by blast
      with Pair Inl 1 show ?thesis by (simp add: try_except_def)
    qed
  qed
  then show ?thesis by (simp add: steps_def)
qed

lemma steps_if: "steps R a \<Longrightarrow> steps R b \<Longrightarrow> steps R (if c then a else b)"
  by simp

lemma steps_case_option:
  "steps R a \<Longrightarrow> (\<And>x. steps R (b x)) \<Longrightarrow> steps R (case opt of None \<Rightarrow> a | Some x \<Rightarrow> b x)"
  by (cases opt) simp_all

lemma steps_emit_tables: "frame R \<Longrightarrow> steps R (emit_tables env em g)"
  by (induction g) (auto intro!: steps_bind steps_emit steps_return)

lemmas steps_intros = steps_try steps_bind steps_if steps_case_option steps_return steps_lift
  steps_get_self steps_response_json steps_loads steps_emit steps_emit_tables

lemma frame_tools: "frame (\<lambda>w w'. tools w' = tools w)"
  by (simp add: frame_def)

lemma tools_request: "steps (\<lambda>w w'. tools w' = tools w) (request env rq)"
  by (rule steps_request) simp

lemma controlEntity_tools: "steps (\<lambda>w w'. tools w' = tools w) (controlEntity env a b c em)"
  unfolding controlEntity_def controlEntity_try_def Let_def requests_post_def
  by (intro steps_intros frame_tools tools_request)

lemma setEntityAttribute_tools:
  "steps (\<lambda>w w'. tools w' = tools w) (setEntityAttribute env a b c d em)"
  unfolding setEntityAttribute_def setEntityAttribute_try_def Let_def requests_post_def
  by (intro steps_intros frame_tools tools_request)

lemma getAvailableServicesForDomain_tools:
  "steps (\<lambda>w w'. tools w' = tools w) (getAvailableServicesForDomain env a em)"
  unfolding getAvailableServicesForDomain_def getAvailableServicesForDomain_try_def
    requests_get_def no_services_def
  by (intro steps_intros frame_tools tools_request)

lemma getAttributesForEntity_tools:
  "steps (\<lambda>w w'. tools w' = tools w) (getAttributesForEntity env a em)"
  unfolding getAttributesForEntity_def getAttributesForEntity_try_def requests_get_def
  by (intro steps_intros frame_tools tools_request)

subsection \<open>Successful discovery\<close>

lemma group_entities_partition:
  assumes "group_entities states [] = Inr g"
  shows "\<exists>ents. map (to_entity ''split'') states = map Inr ents \<and>
           mset (concat (map snd g)) = mset ents \<and>
           distinct (map fst g) \<and>
           (\<forall>(k, items) \<in> set g. items = filter (\<lambda>e. domain e = k) ents \<and> items \<noteq> []) \<and>
           (\<forall>e \<in> set ents. domain e = split_first (entity_id e) \<and> domain e \<in> fst ` set g)"
proof -
  from group_entities_Inr[OF assms] obtain ents where
    ents: "map (to_entity ''split'') states = map Inr ents"
      "\<forall>k. items_of g k = filter (\<lambda>e. domain e = k) ents"
      "mset (concat (map snd g)) = mset ents"
      "distinct (map fst g)" "[] \<notin> snd ` set g"
      "fst ` set g = domain ` set ents"
    by (auto simp: items_of_def)
  have groups: "items = filter (\<lambda>e. domain e = k) ents \<and> items \<noteq> []" if "(k, items) \<in> set g" for k items
  proof -
    from that ents(4) have "map_of g k = Some items" by simp
    then have "items_of g k = items" by (simp add: items_of_def)
    with ents(2) have "items = filter (\<lambda>e. domain e = k) ents" by metis
    moreover from that ents(5) have "items \<noteq> []" by force
    ultimately show ?thesis by simp
  qed
  have ent: "domain e = split_first (entity_id e) \<and> domain e \<in> fst ` set g" if "e \<in> set ents" for e
  proof -
    from that have "Inr e \<in> set (map (to_entity ''split'') states)"
      unfolding ents(1) by simp
    then obtain s where "to_entity ''split'' s = Inr e" by auto
    from to_entity_Inr[OF this] have "domain e = split_first (entity_id e)" by simp
    moreover from that ents(6) have "domain e \<in> fst ` set g" by blast
    ultimately show ?thesis by simp
  qed
  from ents(1,3,4) groups ent show ?thesis by blast
qed

lemma emit_tables_tools:
  "emit_tables env em g w = (r, w') \<Longrightarrow> tools w' = tools w"
  using steps_emit_tables[OF frame_tools, of env em g]
  by (auto simp: steps_def dest: spec[of _ w])

lemma getAllEntities_try_200:
  assumes "getAllEntities_try env em w = (Inr g, w')"
    and "requests env (get_request (tools w) ''/api/states'') = Inr response"
    and "status_code response = 200"
  shows "\<exists>all_states states. resp_json response = Inr all_states \<and>
           py_iter all_states = Inr states \<and> group_entities states [] = Inr g \<and>
           tools w' = (tools w)\<lparr>entity_cache := g\<rparr>"
  using assms
  by (auto simp: getAllEntities_try_def get_request_def run_iffs dest!: emit_tables_tools)

lemma getAllEntities_try_Inr:
  "getAllEntities_try env em w = (Inr g, w') \<Longrightarrow> getAllEntities env em w = (Inr g, w')"
  by (simp add: getAllEntities_def try_except_def)

lemmas eval_defs = io_defs scenario_defs to_entity_def startswith_def split_first_def get_request_def
  auth_headers_def

subsection \<open>The cache\<close>

lemma map_of_dict_setitem: "map_of (dict_setitem k v al) = (map_of al)(k \<mapsto> v)"
  by (induction al) auto

lemma frame_other_keys:
  "frame (\<lambda>w w'. valves (tools w') = valves (tools w) \<and> citation (tools w') = citation (tools w) \<and>
      (\<forall>k. k \<noteq> d \<longrightarrow> map_of (entity_cache (tools w')) k = map_of (entity_cache (tools w)) k))"
  by (simp add: frame_def)

lemma steps_cache_setitem:
  "steps (\<lambda>w w'. valves (tools w') = valves (tools w) \<and> citation (tools w') = citation (tools w) \<and>
      (\<forall>k. k \<noteq> d \<longrightarrow> map_of (entity_cache (tools w')) k = map_of (entity_cache (tools w)) k))
    (cache_setitem d es)"
  by (simp add: steps_def cache_setitem_def map_of_dict_setitem)

lemma getEntitiesByDomain_other_keys:
  "steps (\<lambda>w w'. valves (tools w') = valves (tools w) \<and> citation (tools w') = citation (tools w) \<and>
      (\<forall>k. k \<noteq> d \<longrightarrow> map_of (entity_cache (tools w')) k = map_of (entity_cache (tools w)) k))
    (getEntitiesByDomain env d em)"
  unfolding getEntitiesByDomain_def getEntitiesByDomain_try_def requests_get_def
  by (intro steps_intros frame_other_keys steps_cache_setitem steps_request) simp


lemma getAllEntities_try_200_cache:
  assumes "getAllEntities_try env em w = (Inr g, w')"
    and "requests env (get_request (tools w) ''/api/states'') = Inr response"
    and "status_code response = 200"
  shows "entity_cache (tools w') = g"
  using getAllEntities_try_200[OF assms] by auto


subsection \<open>Exceptions that the handlers catch\<close>

lemma emit_accepting:
  "accepting em \<Longrightarrow> emit em ev w = (Inr (), w\<lparr>emitted := emitted w @ [ev]\<rparr>)"
  by (auto simp: accepting_def emit_def)





































lemmas run_defs = io_bind_def io_return_def io_lift_def try_except_def get_self_def
  requests_get_def requests_post_def request_def response_json_def loads_def
  cache_setitem_def cache_assign_def


subsection \<open>Sinks that accept some events only\<close>



lemma accepting_accepts: "accepting em \<Longrightarrow> accepts em h evs"
  by (induction evs arbitrary: h) (auto simp: accepting_def)




lemma accepts_Cons:
  "accepts em h (ev # evs) = (\<exists>sink. em = Some sink \<and> sink h ev = None \<and> accepts em (h @ [ev]) evs)"
  by (cases em) auto

lemma accepts2:
  "accepts em h [a, b] = (\<exists>sink. em = Some sink \<and> sink h a = None \<and> sink (h @ [a]) b = None)"
  by (cases em) auto

lemma accepts3:
  "accepts em h [a, b, c] =
     (\<exists>sink. em = Some sink \<and> sink h a = None \<and> sink (h @ [a]) b = None \<and>
        sink (h @ [a, b]) c = None)"
  by (cases em) auto



subsection \<open>Reading the state of an entity\<close>






lemma accepting_quiet_sink: "accepting (Some quiet_sink)"
  by (simp add: accepting_def quiet_sink_def)


subsection \<open>Service calls\<close>





lemma override_disjoint:
  assumes "k \<notin> fst ` set xs"
  shows "m(k \<mapsto> v) ++ map_of xs = m ++ (map_of xs)(k \<mapsto> v)"
proof (rule ext)
  fix x
  from assms have n: "map_of xs k = None" by (simp add: map_of_eq_None_iff)
  show "(m(k \<mapsto> v) ++ map_of xs) x = (m ++ (map_of xs)(k \<mapsto> v)) x"
    by (simp add: map_add_def n split: option.splits)
qed

lemma map_of_fold_setitem:
  "distinct (map fst data) \<Longrightarrow>
     map_of (fold (\<lambda>kv. dict_setitem (fst kv) (snd kv)) data acc) = map_of acc ++ map_of data"
proof (induction data arbitrary: acc)
  case Nil
  then show ?case by simp
next
  case (Cons kv data)
  obtain k v where kv: "kv = (k, v)" by (cases kv)
  from Cons.prems kv have d: "distinct (map fst data)" and k: "k \<notin> fst ` set data" by auto
  have "map_of (fold (\<lambda>kv. dict_setitem (fst kv) (snd kv)) (kv # data) acc) =
        map_of (fold (\<lambda>kv. dict_setitem (fst kv) (snd kv)) data (dict_setitem k v acc))"
    by (simp add: kv)
  also have "\<dots> = map_of (dict_setitem k v acc) ++ map_of data"
    by (rule Cons.IH[OF d])
  also have "\<dots> = (map_of acc)(k \<mapsto> v) ++ map_of data"
    by (simp only: map_of_dict_setitem)
  also have "\<dots> = map_of acc ++ (map_of data)(k \<mapsto> v)"
    by (rule override_disjoint[OF k])
  also have "\<dots> = map_of acc ++ map_of (kv # data)"
    by (simp add: kv)
  finally show ?case .
qed

lemma keys_dict_setitem: "fst ` set (dict_setitem k v al) = insert k (fst ` set al)"
proof (induction al)
  case Nil
  then show ?case by simp
next
  case (Cons p al)
  obtain k' v' where p: "p = (k', v')" by (cases p)
  show ?case using Cons.IH by (auto simp: p)
qed

lemma distinct_dict_setitem:
  "distinct (map fst al) \<Longrightarrow> distinct (map fst (dict_setitem k v al))"
  by (induction al) (auto simp: keys_dict_setitem)

lemma distinct_fold_setitem:
  "distinct (map fst acc) \<Longrightarrow>
     distinct (map fst (fold (\<lambda>kv. dict_setitem (fst kv) (snd kv)) data acc))"
  by (induction data arbitrary: acc) (auto simp: distinct_dict_setitem)

lemma frame_posts:
  "frame (\<lambda>w w'. \<exists>rs. sent w' = sent w @ rs \<and>
            (\<forall>r \<in> set rs. req_method r = POST \<and> req_data r = Some payload))"
  unfolding frame_def
proof (intro conjI allI impI)
  fix a b c :: world
  assume "\<exists>rs. sent b = sent a @ rs \<and> (\<forall>r \<in> set rs. req_method r = POST \<and> req_data r = Some payload)"
    and "\<exists>rs. sent c = sent b @ rs \<and> (\<forall>r \<in> set rs. req_method r = POST \<and> req_data r = Some payload)"
  then obtain rs rs' where
    "sent b = sent a @ rs" "\<forall>r \<in> set rs. req_method r = POST \<and> req_data r = Some payload"
    "sent c = sent b @ rs'" "\<forall>r \<in> set rs'. req_method r = POST \<and> req_data r = Some payload"
    by blast
  then have "sent c = sent a @ (rs @ rs') \<and>
      (\<forall>r \<in> set (rs @ rs'). req_method r = POST \<and> req_data r = Some payload)"
    by auto
  then show "\<exists>rs. sent c = sent a @ rs \<and> (\<forall>r \<in> set rs. req_method r = POST \<and> req_data r = Some payload)"
    by blast
qed auto

lemma setEntityAttribute_posts:
  "steps (\<lambda>w w'. \<exists>rs. sent w' = sent w @ rs \<and>
            (\<forall>r \<in> set rs. req_method r = POST \<and>
               req_data r = Some (json_dumps env (JObj (merge_payload entity_id' data)))))
     (setEntityAttribute env entity_id' domain' service data em)"
  unfolding setEntityAttribute_def setEntityAttribute_try_def Let_def requests_post_def
  by (intro steps_intros frame_posts steps_request) simp

lemma setEntityAttribute_sent:
  assumes "accepting em"
  shows "sent (snd (setEntityAttribute env entity_id' domain' service data em w)) =
           sent w @ [post_request (tools w) domain' service
                       (json_dumps env (JObj (merge_payload entity_id' data)))]"
  using assms
  by (simp add: setEntityAttribute_def setEntityAttribute_try_def Let_def run_defs emit_accepting
      post_request_def split: sum.splits)



subsection \<open>The services of a domain\<close>

lemma find_matching_none:
  "\<forall>s \<in> set records. other_domain domain' s \<Longrightarrow> find_matching domain' records = Inr None"
  by (induction records) (auto simp: other_domain_def split: sum.splits)

lemma find_matching_first:
  assumes "\<forall>s \<in> set pre. other_domain domain' s" and "py_getitem m ''domain'' = Inr (JStr domain')"
  shows "find_matching domain' (pre @ m # post) = Inr (Some m)"
  using assms by (induction pre) (auto simp: other_domain_def split: sum.splits)

lemma getitem_truthy: "py_getitem m k = Inr v \<Longrightarrow> truthy m"
  by (cases m) (auto split: option.splits)


subsection \<open>The values of the failure paths\<close>







section \<open>The claims\<close>

text \<open>
  Claim C1, as the code has it. After a successful \<^verbatim>\<open>getEntitiesByDomain(domain)\<close> the
  returned entities are exactly the projections of the upstream states whose
  \<^verbatim>\<open>entity_id\<close> starts with \<^verbatim>\<open>domain\<close> followed by a full stop, and the \<^verbatim>\<open>domain\<close>
  field of each is the part of its \<^verbatim>\<open>entity_id\<close> before the first full stop. That part
  is the part of the requested domain before its first full stop: it is the requested
  domain when the requested domain contains no full stop.
\<close>

theorem getEntitiesByDomain_domain_field:
  assumes "getEntitiesByDomain env domain' em w = (Inr (Entities es), w')"
  shows "(\<forall>e \<in> set es.
            domain e = split_first (entity_id e) \<and>
            startswith (entity_id e) (domain' @ ''.'') \<and>
            domain e = split_first domain' \<and>
            (CHR ''.'' \<notin> set domain' \<longrightarrow> domain e = domain')) \<and>
         (\<exists>response all_states states.
            requests env (get_request (tools w) ''/api/states'') = Inr response \<and>
            status_code response = 200 \<and>
            resp_json response = Inr all_states \<and> py_iter all_states = Inr states \<and>
            map (to_entity ''split'') (filter (keeps domain') states) = map Inr es)"
proof -
  from assms have "getEntitiesByDomain_try env domain' em w = (Inr (Entities es), w')"
    by (rule getEntitiesByDomain_Entities)
  from getEntitiesByDomain_try_Entities[OF this] obtain response all_states states where
    up: "requests env (get_request (tools w) ''/api/states'') = Inr response"
      "status_code response = 200"
      "resp_json response = Inr all_states" "py_iter all_states = Inr states" and
    fe: "filter_entities domain' states = Inr es"
    by blast
  note kept = filter_entities_Inr[OF fe]
  have "domain e = split_first (entity_id e) \<and>
        startswith (entity_id e) (domain' @ ''.'') \<and>
        domain e = split_first domain' \<and>
        (CHR ''.'' \<notin> set domain' \<longrightarrow> domain e = domain')" if "e \<in> set es" for e
  proof -
    from kept that
    have e: "startswith (entity_id e) (domain' @ ''.'')" "domain e = split_first (entity_id e)"
      by auto
    from split_first_startswith[OF e(1)] e split_first_no_dot[of domain']
    show ?thesis by simp
  qed
  with kept up show ?thesis by blast
qed

text \<open>
  The claim as stated fails when the requested domain contains a full stop: asked for
  the domain \<^verbatim>\<open>a.b\<close>, the hub's state \<^verbatim>\<open>a.b.c\<close> is returned with the domain \<^verbatim>\<open>a\<close>.
\<close>

theorem getEntitiesByDomain_dotted_counterexample:
  "fst (getEntitiesByDomain (hub_env dotted_hub) ''a.b'' (Some quiet_sink) w0) =
     Inr (Entities [a_b_c]) \<and>
   domain a_b_c \<noteq> ''a.b''"
  by (simp add: getEntitiesByDomain_def getEntitiesByDomain_try_def eval_defs)

theorem getEntitiesByDomain_domain_field_witness:
  "getEntitiesByDomain (hub_env light_hub) ''light'' (Some quiet_sink) w0 =
     (Inr (Entities [light_a]),
      snd (getEntitiesByDomain (hub_env light_hub) ''light'' (Some quiet_sink) w0)) \<and>
   light_a \<in> set [light_a] \<and> CHR ''.'' \<notin> set ''light'' \<and>
   domain light_a = split_first (entity_id light_a) \<and>
   startswith (entity_id light_a) (''light'' @ ''.'') \<and>
   domain light_a = split_first ''light'' \<and>
   domain light_a = ''light'' \<and>
   (\<exists>response all_states states.
      requests (hub_env light_hub) (get_request (tools w0) ''/api/states'') = Inr response \<and>
      status_code response = 200 \<and>
      resp_json response = Inr all_states \<and> py_iter all_states = Inr states \<and>
      map (to_entity ''split'') (filter (keeps ''light'') states) = map Inr [light_a])"
proof -
  have run: "getEntitiesByDomain (hub_env light_hub) ''light'' (Some quiet_sink) w0 =
     (Inr (Entities [light_a]),
      snd (getEntitiesByDomain (hub_env light_hub) ''light'' (Some quiet_sink) w0))"
    by (simp add: prod_eq_iff getEntitiesByDomain_def getEntitiesByDomain_try_def eval_defs)
  have mem: "light_a \<in> set [light_a]" by simp
  have nodot: "CHR ''.'' \<notin> set ''light''" by simp
  note t = getEntitiesByDomain_domain_field[OF run]
  note e = t[THEN conjunct1, THEN bspec, OF mem]
  note e4 = e[THEN conjunct2, THEN conjunct2, THEN conjunct2, THEN mp, OF nodot]
  show ?thesis
    by (rule conjI[OF run conjI[OF mem conjI[OF nodot conjI[OF e[THEN conjunct1]
          conjI[OF e[THEN conjunct2, THEN conjunct1]
          conjI[OF e[THEN conjunct2, THEN conjunct2, THEN conjunct1]
          conjI[OF e4 t[THEN conjunct2]]]]]]]])
qed

text \<open>
  Claim C2. A call of \<^verbatim>\<open>getAllEntities\<close> is successful when the hub answers 200 and the
  \<^verbatim>\<open>try\<close> block runs to its \<^verbatim>\<open>return grouped\<close>. The returned mapping then partitions
  the upstream states: every state is projected to one entity (\<open>ents\<close>, in upstream
  order), the groups together hold exactly these entities, as many times as they occur
  upstream, the keys are distinct, no group is empty, every entity of a group has the
  group's key as its \<^verbatim>\<open>domain\<close>, and every entity lies in the group keyed by the part
  of its \<^verbatim>\<open>entity_id\<close> before the first full stop.
\<close>

theorem getAllEntities_partition:
  assumes "getAllEntities_try env em w = (Inr grouped, w')"
    and "requests env (get_request (tools w) ''/api/states'') = Inr response"
    and "status_code response = 200"
  shows "getAllEntities env em w = (Inr grouped, w') \<and>
    (\<exists>all_states states ents.
       resp_json response = Inr all_states \<and> py_iter all_states = Inr states \<and>
       map (to_entity ''split'') states = map Inr ents \<and>
       mset (concat (map snd grouped)) = mset ents \<and>
       distinct (map fst grouped) \<and>
       (\<forall>(k, items) \<in> set grouped. items \<noteq> [] \<and> (\<forall>e \<in> set items. e \<in> set ents \<and> domain e = k)) \<and>
       (\<forall>e \<in> set ents. domain e = split_first (entity_id e) \<and>
          (\<exists>items. (domain e, items) \<in> set grouped \<and> e \<in> set items)))"
proof -
  from getAllEntities_try_200[OF assms] obtain all_states states where
    up: "resp_json response = Inr all_states" "py_iter all_states = Inr states" and
    grp: "group_entities states [] = Inr grouped"
    by blast
  from group_entities_partition[OF grp] obtain ents where
    ents: "map (to_entity ''split'') states = map Inr ents"
      "mset (concat (map snd grouped)) = mset ents"
      "distinct (map fst grouped)"
      "\<forall>(k, items) \<in> set grouped. items = filter (\<lambda>e. domain e = k) ents \<and> items \<noteq> []"
      "\<forall>e \<in> set ents. domain e = split_first (entity_id e) \<and> domain e \<in> fst ` set grouped"
    by blast
  have groups: "\<forall>(k, items) \<in> set grouped. items \<noteq> [] \<and> (\<forall>e \<in> set items. e \<in> set ents \<and> domain e = k)"
    using ents(4) by fastforce
  have placed: "\<exists>items. (domain e, items) \<in> set grouped \<and> e \<in> set items" if "e \<in> set ents" for e
  proof -
    from that ents(5) obtain items where i: "(domain e, items) \<in> set grouped" by force
    with ents(4) have "items = filter (\<lambda>x. domain x = domain e) ents" by blast
    with that i show ?thesis by auto
  qed
  from getAllEntities_try_Inr[OF assms(1)] up ents(1,2,3,5) groups placed show ?thesis by blast
qed

theorem getAllEntities_partition_witness:
  "getAllEntities_try (hub_env home_hub) (Some quiet_sink) w0 =
     (Inr home_grouped, snd (getAllEntities_try (hub_env home_hub) (Some quiet_sink) w0)) \<and>
   requests (hub_env home_hub) (get_request (tools w0) ''/api/states'') = Inr (ok_response home_states) \<and>
   status_code (ok_response home_states) = 200 \<and>
   getAllEntities (hub_env home_hub) (Some quiet_sink) w0 =
     (Inr home_grouped, snd (getAllEntities_try (hub_env home_hub) (Some quiet_sink) w0)) \<and>
   (\<exists>all_states states ents.
       resp_json (ok_response home_states) = Inr all_states \<and> py_iter all_states = Inr states \<and>
       map (to_entity ''split'') states = map Inr ents \<and>
       mset (concat (map snd home_grouped)) = mset ents \<and>
       distinct (map fst home_grouped) \<and>
       (\<forall>(k, items) \<in> set home_grouped. items \<noteq> [] \<and> (\<forall>e \<in> set items. e \<in> set ents \<and> domain e = k)) \<and>
       (\<forall>e \<in> set ents. domain e = split_first (entity_id e) \<and>
          (\<exists>items. (domain e, items) \<in> set home_grouped \<and> e \<in> set items)))"
proof -
  have run: "getAllEntities_try (hub_env home_hub) (Some quiet_sink) w0 =
     (Inr home_grouped, snd (getAllEntities_try (hub_env home_hub) (Some quiet_sink) w0))"
    by (simp add: prod_eq_iff getAllEntities_try_def eval_defs)
  have rq: "requests (hub_env home_hub) (get_request (tools w0) ''/api/states'') = Inr (ok_response home_states)"
    by (simp add: eval_defs)
  have st: "status_code (ok_response home_states) = 200"
    by (simp add: eval_defs)
  show ?thesis
    by (rule conjI[OF run conjI[OF rq conjI[OF st getAllEntities_partition[OF run rq st]]]])
qed









text \<open>
  Claim C5. The payload of \<^verbatim>\<open>setEntityAttribute\<close> is the caller's \<^verbatim>\<open>data\<close> with the key
  \<^verbatim>\<open>entity_id\<close> added: as a mapping it is \<^verbatim>\<open>data\<close> laid over the one binding of
  \<^verbatim>\<open>entity_id\<close> to the argument, so that a value that \<^verbatim>\<open>data\<close> gives for \<^verbatim>\<open>entity_id\<close>
  wins. Every request the call sends is a \<^verbatim>\<open>POST\<close> whose body is the serialised
  payload, and with an accepting sink exactly this one request is sent.
\<close>

theorem setEntityAttribute_payload:
  assumes "distinct (map fst data)"
  shows "map_of (merge_payload entity_id' data) = [''entity_id'' \<mapsto> JStr entity_id'] ++ map_of data \<and>
         distinct (map fst (merge_payload entity_id' data)) \<and>
         (\<forall>v. map_of data ''entity_id'' = Some v \<longrightarrow>
              map_of (merge_payload entity_id' data) ''entity_id'' = Some v \<and>
              map_of (merge_payload entity_id' data) = map_of data) \<and>
         (map_of data ''entity_id'' = None \<longrightarrow>
              map_of (merge_payload entity_id' data) ''entity_id'' = Some (JStr entity_id')) \<and>
         (\<exists>rs. sent (snd (setEntityAttribute env entity_id' domain' service data em w)) = sent w @ rs \<and>
               (\<forall>r \<in> set rs. req_method r = POST \<and>
                  req_data r = Some (json_dumps env (JObj (merge_payload entity_id' data))))) \<and>
         (accepting em \<longrightarrow>
            sent (snd (setEntityAttribute env entity_id' domain' service data em w)) =
              sent w @ [post_request (tools w) domain' service
                          (json_dumps env (JObj (merge_payload entity_id' data)))])"
proof -
  have m: "map_of (merge_payload entity_id' data) = [''entity_id'' \<mapsto> JStr entity_id'] ++ map_of data"
    unfolding merge_payload_def using map_of_fold_setitem[OF assms] by simp
  have d: "distinct (map fst (merge_payload entity_id' data))"
    unfolding merge_payload_def by (rule distinct_fold_setitem) simp
  have wins: "map_of (merge_payload entity_id' data) ''entity_id'' = Some v \<and>
              map_of (merge_payload entity_id' data) = map_of data"
    if "map_of data ''entity_id'' = Some v" for v
  proof -
    have "([''entity_id'' \<mapsto> JStr entity_id'] ++ map_of data) x = map_of data x" for x
      using that by (simp add: map_add_def split: option.splits)
    then have "[''entity_id'' \<mapsto> JStr entity_id'] ++ map_of data = map_of data" by (rule ext)
    with m that show ?thesis by simp
  qed
  have dflt: "map_of (merge_payload entity_id' data) ''entity_id'' = Some (JStr entity_id')"
    if "map_of data ''entity_id'' = None"
    using that by (simp add: m map_add_def)
  have body: "\<exists>rs. sent (snd (setEntityAttribute env entity_id' domain' service data em w)) = sent w @ rs \<and>
               (\<forall>r \<in> set rs. req_method r = POST \<and>
                  req_data r = Some (json_dumps env (JObj (merge_payload entity_id' data))))"
    using setEntityAttribute_posts[of env entity_id' data domain' service em] by (simp add: steps_def)
  show ?thesis
    by (intro conjI allI impI m d body; (erule wins[THEN conjunct1] | erule wins[THEN conjunct2]
        | erule dflt | erule setEntityAttribute_sent))
qed

theorem setEntityAttribute_payload_witness:
  "distinct (map fst dimming) \<and>
   map_of dimming ''entity_id'' = Some (JStr ''light.other'') \<and>
   accepting (Some quiet_sink) \<and>
   merge_payload ''light.a'' dimming =
     [(''entity_id'', JStr ''light.other''), (''brightness_pct'', JInt 40)] \<and>
   map_of (merge_payload ''light.a'' dimming) ''entity_id'' = Some (JStr ''light.other'') \<and>
   map_of (merge_payload ''light.a'' dimming) = map_of dimming \<and>
   sent (snd (setEntityAttribute (hub_env accepted_hub) ''light.a'' ''light'' ''turn_on'' dimming (Some quiet_sink) w0)) =
     sent w0 @ [post_request (tools w0) ''light'' ''turn_on''
                  (json_dumps (hub_env accepted_hub) (JObj (merge_payload ''light.a'' dimming)))]"
proof -
  have d: "distinct (map fst dimming)" by (simp add: dimming_def)
  have k: "map_of dimming ''entity_id'' = Some (JStr ''light.other'')" by (simp add: dimming_def)
  have p: "merge_payload ''light.a'' dimming =
     [(''entity_id'', JStr ''light.other''), (''brightness_pct'', JInt 40)]"
    by (simp add: merge_payload_def dimming_def)
  note t = setEntityAttribute_payload[OF d, where entity_id' = "''light.a''"
      and env = "hub_env accepted_hub" and domain' = "''light''" and service = "''turn_on''"
      and em = "Some quiet_sink" and w = w0]
  note t3 = t[THEN conjunct2, THEN conjunct2, THEN conjunct1, THEN spec, THEN mp, OF k]
  note t6 = t[THEN conjunct2, THEN conjunct2, THEN conjunct2, THEN conjunct2, THEN conjunct2,
      THEN mp, OF accepting_quiet_sink]
  show ?thesis
    by (rule conjI[OF d conjI[OF k conjI[OF accepting_quiet_sink conjI[OF p
          conjI[OF t3[THEN conjunct1] conjI[OF t3[THEN conjunct2] t6]]]]]])
qed



text \<open>
  Claim C6, as the code has it. Let the hub answer the state request with a status other
  than 200 (404 for instance). If the sink accepts the opening status and then the
  status with \<^verbatim>\<open>done\<close> set that names the status code, \<^verbatim>\<open>getAttributesForEntity\<close>
  returns the empty mapping, with no \<^verbatim>\<open>error\<close> key, having handed the sink these two
  events and nothing else; the object is unchanged and the one request is the only one
  sent. Conversely the empty mapping is returned only if the sink accepts these two
  events.
\<close>

theorem getAttributesForEntity_non_200:
  assumes "requests env (get_request (tools w) (''/api/states/'' @ entity_id')) = Inr response"
    and "status_code response \<noteq> 200"
  shows "(accepts em (emitted w)
            [Status (''Querying current state of `'' @ entity_id' @ ''`'') False,
             Status (''Error: '' @ str_int (status_code response)) True] \<longrightarrow>
          getAttributesForEntity env entity_id' em w =
           (Inr [],
            w\<lparr>emitted := emitted w @
                 [Status (''Querying current state of `'' @ entity_id' @ ''`'') False,
                  Status (''Error: '' @ str_int (status_code response)) True],
              sent := sent w @ [get_request (tools w) (''/api/states/'' @ entity_id')]\<rparr>)) \<and>
         (fst (getAttributesForEntity env entity_id' em w) = Inr [] \<longrightarrow>
          accepts em (emitted w)
            [Status (''Querying current state of `'' @ entity_id' @ ''`'') False,
             Status (''Error: '' @ str_int (status_code response)) True])"
proof (rule conjI; rule impI)
  assume "accepts em (emitted w)
            [Status (''Querying current state of `'' @ entity_id' @ ''`'') False,
             Status (''Error: '' @ str_int (status_code response)) True]"
  then obtain sink where "em = Some sink"
    "sink (emitted w) (Status (''Querying current state of `'' @ entity_id' @ ''`'') False) = None"
    "sink (emitted w @ [Status (''Querying current state of `'' @ entity_id' @ ''`'') False])
       (Status (''Error: '' @ str_int (status_code response)) True) = None"
    by (auto simp: accepts_Cons)
  with assms show "getAttributesForEntity env entity_id' em w =
           (Inr [],
            w\<lparr>emitted := emitted w @
                 [Status (''Querying current state of `'' @ entity_id' @ ''`'') False,
                  Status (''Error: '' @ str_int (status_code response)) True],
              sent := sent w @ [get_request (tools w) (''/api/states/'' @ entity_id')]\<rparr>)"
    by (simp add: getAttributesForEntity_def getAttributesForEntity_try_def run_defs emit_def
        get_request_def)
next
  assume r: "fst (getAttributesForEntity env entity_id' em w) = Inr []"
  show "accepts em (emitted w)
            [Status (''Querying current state of `'' @ entity_id' @ ''`'') False,
             Status (''Error: '' @ str_int (status_code response)) True]"
  proof (cases em)
    case None
    with r show ?thesis
      by (simp add: getAttributesForEntity_def getAttributesForEntity_try_def run_defs emit_def
          TypeError_def)
  next
    case (Some sink)
    with r assms show ?thesis
      by (auto simp: getAttributesForEntity_def getAttributesForEntity_try_def run_defs emit_def
          get_request_def split: option.splits if_splits)
  qed
qed

text \<open>
  The claim as stated fails on the sink. On a 404, a sink that raises on every status
  with \<^verbatim>\<open>done\<close> set makes the operation raise, and a sink that raises on its second
  event only makes it return a mapping with an \<^verbatim>\<open>error\<close> key.
\<close>

theorem getAttributesForEntity_non_200_counterexample:
  "requests (hub_env missing_hub) (get_request (tools w0) (''/api/states/'' @ ''light.gone'')) =
     Inr not_found \<and>
   status_code not_found \<noteq> 200 \<and>
   fst (getAttributesForEntity (hub_env missing_hub) ''light.gone'' (Some done_failing_sink) w0) =
     Inl (Exception ''RuntimeError'' ''sink closed'') \<and>
   fst (getAttributesForEntity (hub_env missing_hub) ''light.gone'' (Some second_failing_sink) w0) =
     Inr [(''error'', JStr ''sink closed'')]"
  by (simp add: getAttributesForEntity_def getAttributesForEntity_try_def eval_defs scenario_defs)

theorem getAttributesForEntity_non_200_witness:
  "requests (hub_env missing_hub) (get_request (tools w0) (''/api/states/'' @ ''light.gone'')) = Inr not_found \<and>
   status_code not_found \<noteq> 200 \<and>
   accepts (Some quiet_sink) (emitted w0)
     [Status (''Querying current state of `'' @ ''light.gone'' @ ''`'') False,
      Status (''Error: '' @ str_int (status_code not_found)) True] \<and>
   getAttributesForEntity (hub_env missing_hub) ''light.gone'' (Some quiet_sink) w0 =
           (Inr [],
            w0\<lparr>emitted := emitted w0 @
                 [Status (''Querying current state of `'' @ ''light.gone'' @ ''`'') False,
                  Status (''Error: '' @ str_int (status_code not_found)) True],
              sent := sent w0 @ [get_request (tools w0) (''/api/states/'' @ ''light.gone'')]\<rparr>) \<and>
   fst (getAttributesForEntity (hub_env missing_hub) ''light.gone'' (Some quiet_sink) w0) = Inr []"
proof -
  have rq: "requests (hub_env missing_hub) (get_request (tools w0) (''/api/states/'' @ ''light.gone'')) = Inr not_found"
    by (simp add: hub_env_def missing_hub_def)
  have st: "status_code not_found \<noteq> 200"
    by (simp add: not_found_def)
  have acc: "accepts (Some quiet_sink) (emitted w0)
     [Status (''Querying current state of `'' @ ''light.gone'' @ ''`'') False,
      Status (''Error: '' @ str_int (status_code not_found)) True]"
    by (rule accepting_accepts[OF accepting_quiet_sink])
  note t = getAttributesForEntity_non_200[OF rq st, where em = "Some quiet_sink",
      THEN conjunct1, THEN mp, OF acc]
  have r: "fst (getAttributesForEntity (hub_env missing_hub) ''light.gone'' (Some quiet_sink) w0) = Inr []"
    by (simp only: t fst_conv)
  show ?thesis
    by (rule conjI[OF rq conjI[OF st conjI[OF
          getAttributesForEntity_non_200[OF rq st, where em = "Some quiet_sink",
            THEN conjunct2, THEN mp, OF r] conjI[OF t r]]]])
qed

text \<open>
  Claim C7. Only the two discovery operations write the entity cache. The four other
  operations leave the object as it was, whatever they return or raise. A successful
  \<^verbatim>\<open>getEntitiesByDomain(domain)\<close> stores the returned list under the key \<^verbatim>\<open>domain\<close>, in
  place of any earlier entry, and no call of it ever changes the entry of another key.
  A successful \<^verbatim>\<open>getAllEntities\<close> leaves the returned grouping as the whole cache.
\<close>

theorem entity_cache_written_by_discovery_only:
  "tools (snd (controlEntity env entityID domain' service em w)) = tools w \<and>
   tools (snd (getAvailableServicesForDomain env domain' em w)) = tools w \<and>
   tools (snd (getAttributesForEntity env entity_id' em w)) = tools w \<and>
   tools (snd (setEntityAttribute env entity_id' domain' service data em w)) = tools w \<and>
   (getEntitiesByDomain env domain' em w = (Inr (Entities es), w') \<longrightarrow>
      entity_cache (tools w') = dict_setitem domain' es (entity_cache (tools w)) \<and>
      map_of (entity_cache (tools w')) = (map_of (entity_cache (tools w)))(domain' \<mapsto> es)) \<and>
   (\<forall>k. k \<noteq> domain' \<longrightarrow>
      map_of (entity_cache (tools (snd (getEntitiesByDomain env domain' em w)))) k =
      map_of (entity_cache (tools w)) k) \<and>
   (getAllEntities_try env em w = (Inr grouped, w'') \<and>
    requests env (get_request (tools w) ''/api/states'') = Inr response \<and>
    status_code response = 200 \<longrightarrow>
      getAllEntities env em w = (Inr grouped, w'') \<and> entity_cache (tools w'') = grouped)"
proof -
  have 1: "tools (snd (controlEntity env entityID domain' service em w)) = tools w"
    using controlEntity_tools by (simp add: steps_def)
  have 2: "tools (snd (getAvailableServicesForDomain env domain' em w)) = tools w"
    using getAvailableServicesForDomain_tools by (simp add: steps_def)
  have 3: "tools (snd (getAttributesForEntity env entity_id' em w)) = tools w"
    using getAttributesForEntity_tools by (simp add: steps_def)
  have 4: "tools (snd (setEntityAttribute env entity_id' domain' service data em w)) = tools w"
    using setEntityAttribute_tools by (simp add: steps_def)
  have 5: "entity_cache (tools w') = dict_setitem domain' es (entity_cache (tools w)) \<and>
      map_of (entity_cache (tools w')) = (map_of (entity_cache (tools w)))(domain' \<mapsto> es)"
    if "getEntitiesByDomain env domain' em w = (Inr (Entities es), w')"
  proof -
    from that have "getEntitiesByDomain_try env domain' em w = (Inr (Entities es), w')"
      by (rule getEntitiesByDomain_Entities)
    from getEntitiesByDomain_try_Entities[OF this]
    have "tools w' = (tools w)\<lparr>entity_cache := dict_setitem domain' es (entity_cache (tools w))\<rparr>"
      by blast
    then show ?thesis by (simp add: map_of_dict_setitem)
  qed
  have 6: "\<forall>k. k \<noteq> domain' \<longrightarrow>
      map_of (entity_cache (tools (snd (getEntitiesByDomain env domain' em w)))) k =
      map_of (entity_cache (tools w)) k"
    using getEntitiesByDomain_other_keys[of domain' env em] by (simp add: steps_def)
  have 7: "getAllEntities env em w = (Inr grouped, w'') \<and> entity_cache (tools w'') = grouped"
    if "getAllEntities_try env em w = (Inr grouped, w'') \<and>
        requests env (get_request (tools w) ''/api/states'') = Inr response \<and>
        status_code response = 200"
    using that getAllEntities_try_Inr getAllEntities_try_200_cache by blast
  from 1 2 3 4 5 6 7 show ?thesis by blast
qed

theorem entity_cache_written_by_discovery_only_witness:
  "getEntitiesByDomain (hub_env home_hub) ''light'' (Some quiet_sink) w_cached =
     (Inr (Entities [light_a, light_c]),
      snd (getEntitiesByDomain (hub_env home_hub) ''light'' (Some quiet_sink) w_cached)) \<and>
   entity_cache (tools (snd (getEntitiesByDomain (hub_env home_hub) ''light'' (Some quiet_sink) w_cached))) =
     [(''switch'', [switch_b]), (''light'', [light_a, light_c])] \<and>
   ''switch'' \<noteq> ''light'' \<and>
   map_of (entity_cache (tools (snd (getEntitiesByDomain (hub_env home_hub) ''light'' (Some quiet_sink) w_cached)))) ''switch'' =
     map_of (entity_cache (tools w_cached)) ''switch'' \<and>
   (getAllEntities_try (hub_env home_hub) (Some quiet_sink) w_cached =
      (Inr home_grouped, snd (getAllEntities_try (hub_env home_hub) (Some quiet_sink) w_cached)) \<and>
    requests (hub_env home_hub) (get_request (tools w_cached) ''/api/states'') = Inr (ok_response home_states) \<and>
    status_code (ok_response home_states) = 200) \<and>
   entity_cache (tools (snd (getAllEntities_try (hub_env home_hub) (Some quiet_sink) w_cached))) = home_grouped"
proof -
  have run1: "getEntitiesByDomain (hub_env home_hub) ''light'' (Some quiet_sink) w_cached =
     (Inr (Entities [light_a, light_c]),
      snd (getEntitiesByDomain (hub_env home_hub) ''light'' (Some quiet_sink) w_cached))"
    by (simp add: prod_eq_iff getEntitiesByDomain_def getEntitiesByDomain_try_def eval_defs)
  have run2: "getAllEntities_try (hub_env home_hub) (Some quiet_sink) w_cached =
      (Inr home_grouped, snd (getAllEntities_try (hub_env home_hub) (Some quiet_sink) w_cached)) \<and>
    requests (hub_env home_hub) (get_request (tools w_cached) ''/api/states'') = Inr (ok_response home_states) \<and>
    status_code (ok_response home_states) = 200"
    by (simp add: prod_eq_iff getAllEntities_try_def eval_defs)
  have ne: "''switch'' \<noteq> ''light''" by simp
  have old: "dict_setitem ''light'' [light_a, light_c] (entity_cache (tools w_cached)) =
               [(''switch'', [switch_b]), (''light'', [light_a, light_c])]"
    by (simp add: scenario_defs)
  note t = entity_cache_written_by_discovery_only[where env = "hub_env home_hub"
      and em = "Some quiet_sink" and w = w_cached and domain' = "''light''"
      and es = "[light_a, light_c]" and grouped = home_grouped
      and response = "ok_response home_states"
      and w' = "snd (getEntitiesByDomain (hub_env home_hub) ''light'' (Some quiet_sink) w_cached)"
      and w'' = "snd (getAllEntities_try (hub_env home_hub) (Some quiet_sink) w_cached)"]
  note t5 = t[THEN conjunct2, THEN conjunct2, THEN conjunct2, THEN conjunct2, THEN conjunct1]
  note t6 = t[THEN conjunct2, THEN conjunct2, THEN conjunct2, THEN conjunct2, THEN conjunct2,
      THEN conjunct1]
  note t7 = t[THEN conjunct2, THEN conjunct2, THEN conjunct2, THEN conjunct2, THEN conjunct2,
      THEN conjunct2]
  have c1: "entity_cache (tools (snd (getEntitiesByDomain (hub_env home_hub) ''light'' (Some quiet_sink) w_cached))) =
     [(''switch'', [switch_b]), (''light'', [light_a, light_c])]"
    by (rule trans[OF t5[THEN mp, OF run1, THEN conjunct1] old])
  have c2: "map_of (entity_cache (tools (snd (getEntitiesByDomain (hub_env home_hub) ''light'' (Some quiet_sink) w_cached)))) ''switch'' =
     map_of (entity_cache (tools w_cached)) ''switch''"
    by (rule t6[THEN spec, THEN mp, OF ne])
  have c3: "entity_cache (tools (snd (getAllEntities_try (hub_env home_hub) (Some quiet_sink) w_cached))) = home_grouped"
    by (rule t7[THEN mp, OF run2, THEN conjunct2])
  show ?thesis
    by (rule conjI[OF run1 conjI[OF c1 conjI[OF ne conjI[OF c2 conjI[OF run2 c3]]]]])
qed


text \<open>
  Claim C8, as the code has it. Let the hub answer the services request with 200 and an
  array of records. When every record has a field \<^verbatim>\<open>domain\<close> that is not the requested
  domain, and the sink accepts the opening status and then the message that nothing was
  found, \<^verbatim>\<open>getAvailableServicesForDomain\<close> returns the empty list, having handed the
  sink these two events and nothing else: no status with \<^verbatim>\<open>done\<close> set, no error. When
  a record of the requested domain is preceded only by records with a field
  \<^verbatim>\<open>domain\<close> that is not the requested domain, its field \<^verbatim>\<open>services\<close> can be iterated
  (a list, a string, or the mapping from service names that the hub sends), and the
  sink accepts the opening status, the message that lists the elements and the closing
  status, this field is returned as it is (the first match wins).
\<close>

theorem getAvailableServicesForDomain_no_match:
  assumes "requests env (get_request (tools w) ''/api/services'') = Inr response"
    and "status_code response = 200"
    and "resp_json response = Inr (JList records)"
  shows "((\<forall>s \<in> set records. other_domain domain' s) \<and>
          accepts em (emitted w)
            [Status (''Fetching available services for domain '' @ quote @ domain' @ quote) False,
             Message (''No services found for domain `'' @ domain' @ ''`'')] \<longrightarrow>
            getAvailableServicesForDomain env domain' em w =
              (Inr (JList []),
               w\<lparr>emitted := emitted w @
                    [Status (''Fetching available services for domain '' @ quote @ domain' @ quote) False,
                     Message (''No services found for domain `'' @ domain' @ ''`'')],
                 sent := sent w @ [get_request (tools w) ''/api/services'']\<rparr>)) \<and>
         (\<forall>pre m post services names.
            records = pre @ m # post \<and> (\<forall>s \<in> set pre. other_domain domain' s) \<and>
            py_getitem m ''domain'' = Inr (JStr domain') \<and>
            py_getitem m ''services'' = Inr services \<and> py_iter services = Inr names \<and>
            accepts em (emitted w)
              [Status (''Fetching available services for domain '' @ quote @ domain' @ quote) False,
               Message (''**Available services for domain** `'' @ domain' @ ''`:\<newline>\<newline>'' @
                  concat (map (\<lambda>s. ''- `'' @ py_str env s @ ''`\<newline>'') names)),
               Status ''Service list complete'' True] \<longrightarrow>
            getAvailableServicesForDomain env domain' em w =
              (Inr services,
               w\<lparr>emitted := emitted w @
                  [Status (''Fetching available services for domain '' @ quote @ domain' @ quote) False,
                   Message (''**Available services for domain** `'' @ domain' @ ''`:\<newline>\<newline>'' @
                      concat (map (\<lambda>s. ''- `'' @ py_str env s @ ''`\<newline>'') names)),
                   Status ''Service list complete'' True],
                 sent := sent w @ [get_request (tools w) ''/api/services'']\<rparr>))"
proof (rule conjI)
  show "(\<forall>s \<in> set records. other_domain domain' s) \<and>
          accepts em (emitted w)
            [Status (''Fetching available services for domain '' @ quote @ domain' @ quote) False,
             Message (''No services found for domain `'' @ domain' @ ''`'')] \<longrightarrow>
            getAvailableServicesForDomain env domain' em w =
              (Inr (JList []),
               w\<lparr>emitted := emitted w @
                    [Status (''Fetching available services for domain '' @ quote @ domain' @ quote) False,
                     Message (''No services found for domain `'' @ domain' @ ''`'')],
                 sent := sent w @ [get_request (tools w) ''/api/services'']\<rparr>)"
  proof (rule impI)
    assume a: "(\<forall>s \<in> set records. other_domain domain' s) \<and>
          accepts em (emitted w)
            [Status (''Fetching available services for domain '' @ quote @ domain' @ quote) False,
             Message (''No services found for domain `'' @ domain' @ ''`'')]"
    then have f: "find_matching domain' records = Inr None" by (simp add: find_matching_none)
    from a obtain sink where "em = Some sink"
      "sink (emitted w) (Status (''Fetching available services for domain '' @ quote @ domain' @ quote) False) = None"
      "sink (emitted w @ [Status (''Fetching available services for domain '' @ quote @ domain' @ quote) False])
         (Message (''No services found for domain `'' @ domain' @ ''`'')) = None"
      unfolding accepts2 by blast
    with assms f show "getAvailableServicesForDomain env domain' em w =
              (Inr (JList []),
               w\<lparr>emitted := emitted w @
                    [Status (''Fetching available services for domain '' @ quote @ domain' @ quote) False,
                     Message (''No services found for domain `'' @ domain' @ ''`'')],
                 sent := sent w @ [get_request (tools w) ''/api/services'']\<rparr>)"
      by (simp add: getAvailableServicesForDomain_def getAvailableServicesForDomain_try_def
          no_services_def run_defs emit_def get_request_def)
  qed
next
  show "\<forall>pre m post services names.
            records = pre @ m # post \<and> (\<forall>s \<in> set pre. other_domain domain' s) \<and>
            py_getitem m ''domain'' = Inr (JStr domain') \<and>
            py_getitem m ''services'' = Inr services \<and> py_iter services = Inr names \<and>
            accepts em (emitted w)
              [Status (''Fetching available services for domain '' @ quote @ domain' @ quote) False,
               Message (''**Available services for domain** `'' @ domain' @ ''`:\<newline>\<newline>'' @
                  concat (map (\<lambda>s. ''- `'' @ py_str env s @ ''`\<newline>'') names)),
               Status ''Service list complete'' True] \<longrightarrow>
            getAvailableServicesForDomain env domain' em w =
              (Inr services,
               w\<lparr>emitted := emitted w @
                  [Status (''Fetching available services for domain '' @ quote @ domain' @ quote) False,
                   Message (''**Available services for domain** `'' @ domain' @ ''`:\<newline>\<newline>'' @
                      concat (map (\<lambda>s. ''- `'' @ py_str env s @ ''`\<newline>'') names)),
                   Status ''Service list complete'' True],
                 sent := sent w @ [get_request (tools w) ''/api/services'']\<rparr>)"
  proof (intro allI impI)
    fix pre m post services names
    assume a: "records = pre @ m # post \<and> (\<forall>s \<in> set pre. other_domain domain' s) \<and>
            py_getitem m ''domain'' = Inr (JStr domain') \<and>
            py_getitem m ''services'' = Inr services \<and> py_iter services = Inr names \<and>
            accepts em (emitted w)
              [Status (''Fetching available services for domain '' @ quote @ domain' @ quote) False,
               Message (''**Available services for domain** `'' @ domain' @ ''`:\<newline>\<newline>'' @
                  concat (map (\<lambda>s. ''- `'' @ py_str env s @ ''`\<newline>'') names)),
               Status ''Service list complete'' True]"
    then have f: "find_matching domain' records = Inr (Some m)"
      using find_matching_first by blast
    from a have t: "truthy m" using getitem_truthy by blast
    from a have s: "py_getitem m ''services'' = Inr services" "py_iter services = Inr names"
      by simp_all
    from a obtain sink where "em = Some sink"
      "sink (emitted w) (Status (''Fetching available services for domain '' @ quote @ domain' @ quote) False) = None"
      "sink (emitted w @ [Status (''Fetching available services for domain '' @ quote @ domain' @ quote) False])
         (Message (''**Available services for domain** `'' @ domain' @ ''`:\<newline>\<newline>'' @
                  concat (map (\<lambda>s. ''- `'' @ py_str env s @ ''`\<newline>'') names))) = None"
      "sink (emitted w @ [Status (''Fetching available services for domain '' @ quote @ domain' @ quote) False,
           Message (''**Available services for domain** `'' @ domain' @ ''`:\<newline>\<newline>'' @
                  concat (map (\<lambda>s. ''- `'' @ py_str env s @ ''`\<newline>'') names))])
         (Status ''Service list complete'' True) = None"
      unfolding accepts3 by blast
    with assms f t s
    show "getAvailableServicesForDomain env domain' em w =
              (Inr services,
               w\<lparr>emitted := emitted w @
                  [Status (''Fetching available services for domain '' @ quote @ domain' @ quote) False,
                   Message (''**Available services for domain** `'' @ domain' @ ''`:\<newline>\<newline>'' @
                      concat (map (\<lambda>s. ''- `'' @ py_str env s @ ''`\<newline>'') names)),
                   Status ''Service list complete'' True],
                 sent := sent w @ [get_request (tools w) ''/api/services'']\<rparr>)"
      by (simp add: getAvailableServicesForDomain_def getAvailableServicesForDomain_try_def
          no_services_def run_defs emit_def get_request_def)
  qed
qed

text \<open>
  The claim as stated fails on a record without the field \<^verbatim>\<open>domain\<close> and on the sink.
  A 200 with an array whose only record has no field \<^verbatim>\<open>domain\<close> holds no record of the
  requested domain, yet the lookup raises a \<^verbatim>\<open>KeyError\<close>: the sink receives an error
  status and no message. A sink that raises on messages receives, after the message
  that nothing was found, an error status.
\<close>

theorem getAvailableServicesForDomain_no_match_counterexample:
  "requests (hub_env no_domain_hub) (get_request (tools w0) ''/api/services'') =
     Inr (ok_response (JList [no_domain_record])) \<and>
   status_code (ok_response (JList [no_domain_record])) = 200 \<and>
   py_getitem no_domain_record ''domain'' = Inl (KeyError ''domain'') \<and>
   getAvailableServicesForDomain (hub_env no_domain_hub) ''nope'' (Some quiet_sink) w0 =
     (Inr (JList []),
      w0\<lparr>emitted :=
           [Status (''Fetching available services for domain '' @ quote @ ''nope'' @ quote) False,
            Status (''Error occurred: '' @ quote @ ''domain'' @ quote) True],
         sent := [get_request (tools w0) ''/api/services'']\<rparr>) \<and>
   list_all (other_domain ''nope'') [switch_record, light_record, light_again] \<and>
   getAvailableServicesForDomain (hub_env services_hub) ''nope'' (Some message_failing_sink) w0 =
     (Inr (JList []),
      w0\<lparr>emitted :=
           [Status (''Fetching available services for domain '' @ quote @ ''nope'' @ quote) False,
            Message (''No services found for domain `'' @ ''nope'' @ ''`''),
            Status (''Error occurred: '' @ ''sink closed'') True],
         sent := [get_request (tools w0) ''/api/services'']\<rparr>)"
  by (simp add: getAvailableServicesForDomain_def getAvailableServicesForDomain_try_def
      no_services_def eval_defs scenario_defs other_domain_def KeyError_def)

theorem getAvailableServicesForDomain_no_match_witness:
  "requests (hub_env services_hub) (get_request (tools w0) ''/api/services'') =
     Inr (ok_response (JList [switch_record, light_record, light_again])) \<and>
   status_code (ok_response (JList [switch_record, light_record, light_again])) = 200 \<and>
   resp_json (ok_response (JList [switch_record, light_record, light_again])) =
     Inr (JList [switch_record, light_record, light_again]) \<and>
   list_all (other_domain ''nope'') [switch_record, light_record, light_again] \<and>
   accepts (Some quiet_sink) (emitted w0)
     [Status (''Fetching available services for domain '' @ quote @ ''nope'' @ quote) False,
      Message (''No services found for domain `'' @ ''nope'' @ ''`'')] \<and>
   getAvailableServicesForDomain (hub_env services_hub) ''nope'' (Some quiet_sink) w0 =
     (Inr (JList []),
      w0\<lparr>emitted := emitted w0 @
           [Status (''Fetching available services for domain '' @ quote @ ''nope'' @ quote) False,
            Message (''No services found for domain `'' @ ''nope'' @ ''`'')],
         sent := sent w0 @ [get_request (tools w0) ''/api/services'']\<rparr>) \<and>
   ([switch_record, light_record, light_again] = [switch_record] @ light_record # [light_again] \<and>
    list_all (other_domain ''light'') [switch_record] \<and>
    py_getitem light_record ''domain'' = Inr (JStr ''light'') \<and>
    py_getitem light_record ''services'' = Inr (JObj [(''turn_on'', JObj []), (''turn_off'', JObj [])]) \<and>
    py_iter (JObj [(''turn_on'', JObj []), (''turn_off'', JObj [])]) = Inr [JStr ''turn_on'', JStr ''turn_off'']) \<and>
   accepts (Some quiet_sink) (emitted w0)
     [Status (''Fetching available services for domain '' @ quote @ ''light'' @ quote) False,
      Message (''**Available services for domain** `'' @ ''light'' @ ''`:\<newline>\<newline>'' @
           concat (map (\<lambda>s. ''- `'' @ py_str (hub_env services_hub) s @ ''`\<newline>'') [JStr ''turn_on'', JStr ''turn_off''])),
      Status ''Service list complete'' True] \<and>
   getAvailableServicesForDomain (hub_env services_hub) ''light'' (Some quiet_sink) w0 =
     (Inr (JObj [(''turn_on'', JObj []), (''turn_off'', JObj [])]),
      w0\<lparr>emitted := emitted w0 @
           [Status (''Fetching available services for domain '' @ quote @ ''light'' @ quote) False,
            Message (''**Available services for domain** `'' @ ''light'' @ ''`:\<newline>\<newline>'' @
             concat (map (\<lambda>s. ''- `'' @ py_str (hub_env services_hub) s @ ''`\<newline>'') [JStr ''turn_on'', JStr ''turn_off''])),
            Status ''Service list complete'' True],
         sent := sent w0 @ [get_request (tools w0) ''/api/services'']\<rparr>)"
proof -
  have rq: "requests (hub_env services_hub) (get_request (tools w0) ''/api/services'') =
     Inr (ok_response (JList [switch_record, light_record, light_again]))"
    by (simp add: hub_env_def services_hub_def)
  have st: "status_code (ok_response (JList [switch_record, light_record, light_again])) = 200"
    by (simp add: ok_response_def)
  have js: "resp_json (ok_response (JList [switch_record, light_record, light_again])) =
     Inr (JList [switch_record, light_record, light_again])"
    by (simp add: ok_response_def)
  have none: "\<forall>s \<in> set [switch_record, light_record, light_again]. other_domain ''nope'' s"
    by (simp add: other_domain_def scenario_defs)
  have none': "list_all (other_domain ''nope'') [switch_record, light_record, light_again]"
    using none by (simp add: list_all_iff)
  have accA: "accepts (Some quiet_sink) (emitted w0)
     [Status (''Fetching available services for domain '' @ quote @ ''nope'' @ quote) False,
      Message (''No services found for domain `'' @ ''nope'' @ ''`'')]"
    by (rule accepting_accepts[OF accepting_quiet_sink])
  have accB: "accepts (Some quiet_sink) (emitted w0)
     [Status (''Fetching available services for domain '' @ quote @ ''light'' @ quote) False,
      Message (''**Available services for domain** `'' @ ''light'' @ ''`:\<newline>\<newline>'' @
           concat (map (\<lambda>s. ''- `'' @ py_str (hub_env services_hub) s @ ''`\<newline>'') [JStr ''turn_on'', JStr ''turn_off''])),
      Status ''Service list complete'' True]"
    by (rule accepting_accepts[OF accepting_quiet_sink])
  have pre: "\<forall>s \<in> set [switch_record]. other_domain ''light'' s"
    by (simp add: other_domain_def scenario_defs)
  have first: "[switch_record, light_record, light_again] = [switch_record] @ light_record # [light_again] \<and>
    list_all (other_domain ''light'') [switch_record] \<and>
    py_getitem light_record ''domain'' = Inr (JStr ''light'') \<and>
    py_getitem light_record ''services'' = Inr (JObj [(''turn_on'', JObj []), (''turn_off'', JObj [])]) \<and>
    py_iter (JObj [(''turn_on'', JObj []), (''turn_off'', JObj [])]) = Inr [JStr ''turn_on'', JStr ''turn_off'']"
    by (simp add: other_domain_def scenario_defs)
  have first': "([switch_record, light_record, light_again] = [switch_record] @ light_record # [light_again] \<and>
    (\<forall>s \<in> set [switch_record]. other_domain ''light'' s) \<and>
    py_getitem light_record ''domain'' = Inr (JStr ''light'') \<and>
    py_getitem light_record ''services'' = Inr (JObj [(''turn_on'', JObj []), (''turn_off'', JObj [])]) \<and>
    py_iter (JObj [(''turn_on'', JObj []), (''turn_off'', JObj [])]) = Inr [JStr ''turn_on'', JStr ''turn_off'']) \<and>
   accepts (Some quiet_sink) (emitted w0)
     [Status (''Fetching available services for domain '' @ quote @ ''light'' @ quote) False,
      Message (''**Available services for domain** `'' @ ''light'' @ ''`:\<newline>\<newline>'' @
           concat (map (\<lambda>s. ''- `'' @ py_str (hub_env services_hub) s @ ''`\<newline>'') [JStr ''turn_on'', JStr ''turn_off''])),
      Status ''Service list complete'' True]"
    using first pre accB by simp
  note t1 = getAvailableServicesForDomain_no_match[OF rq st js,
      where domain' = "''nope''" and em = "Some quiet_sink", THEN conjunct1, THEN mp,
      OF conjI[OF none accA]]
  note t2 = getAvailableServicesForDomain_no_match[OF rq st js,
      where domain' = "''light''" and em = "Some quiet_sink", THEN conjunct2, THEN spec,
      THEN spec, THEN spec, THEN spec, THEN spec, THEN mp, OF first'[unfolded conj_assoc]]
  show ?thesis
    by (rule conjI[OF rq conjI[OF st conjI[OF js conjI[OF none' conjI[OF accA conjI[OF t1
          conjI[OF first conjI[OF accB t2]]]]]]]])
qed

text \<open>
  Claim C9. Discovery keeps the upstream order. The entities that a successful
  \<^verbatim>\<open>getEntitiesByDomain\<close> returns are the projections, in order, of the upstream states
  that pass the filter; each group of a successful \<^verbatim>\<open>getAllEntities\<close> lists, in upstream
  order, the entities of all upstream states with the group's domain.
\<close>

theorem discovery_preserves_order:
  "(getEntitiesByDomain env domain' em w = (Inr (Entities es), w') \<longrightarrow>
      (\<exists>response all_states states.
         requests env (get_request (tools w) ''/api/states'') = Inr response \<and>
         resp_json response = Inr all_states \<and> py_iter all_states = Inr states \<and>
         map (to_entity ''split'') (filter (keeps domain') states) = map Inr es)) \<and>
   (getAllEntities_try env em w = (Inr grouped, w'') \<and>
    requests env (get_request (tools w) ''/api/states'') = Inr response' \<and>
    status_code response' = 200 \<longrightarrow>
      (\<exists>all_states states ents.
         resp_json response' = Inr all_states \<and> py_iter all_states = Inr states \<and>
         map (to_entity ''split'') states = map Inr ents \<and>
         (\<forall>(k, items) \<in> set grouped. items = filter (\<lambda>e. domain e = k) ents)))"
proof (intro conjI impI)
  assume "getEntitiesByDomain env domain' em w = (Inr (Entities es), w')"
  then have "getEntitiesByDomain_try env domain' em w = (Inr (Entities es), w')"
    by (rule getEntitiesByDomain_Entities)
  from getEntitiesByDomain_try_Entities[OF this] obtain response all_states states where
    up: "requests env (get_request (tools w) ''/api/states'') = Inr response"
      "resp_json response = Inr all_states" "py_iter all_states = Inr states"
      "filter_entities domain' states = Inr es"
    by blast
  from filter_entities_Inr[OF up(4)] up(1,2,3)
  show "\<exists>response all_states states.
         requests env (get_request (tools w) ''/api/states'') = Inr response \<and>
         resp_json response = Inr all_states \<and> py_iter all_states = Inr states \<and>
         map (to_entity ''split'') (filter (keeps domain') states) = map Inr es"
    by blast
next
  assume a: "getAllEntities_try env em w = (Inr grouped, w'') \<and>
    requests env (get_request (tools w) ''/api/states'') = Inr response' \<and>
    status_code response' = 200"
  then have "\<exists>all_states states. resp_json response' = Inr all_states \<and>
           py_iter all_states = Inr states \<and> group_entities states [] = Inr grouped \<and>
           tools w'' = (tools w)\<lparr>entity_cache := grouped\<rparr>"
    using getAllEntities_try_200 by blast
  then obtain all_states states where
    up: "resp_json response' = Inr all_states" "py_iter all_states = Inr states" and
    grp: "group_entities states [] = Inr grouped"
    by blast
  from group_entities_partition[OF grp] up
  show "\<exists>all_states states ents.
         resp_json response' = Inr all_states \<and> py_iter all_states = Inr states \<and>
         map (to_entity ''split'') states = map Inr ents \<and>
         (\<forall>(k, items) \<in> set grouped. items = filter (\<lambda>e. domain e = k) ents)"
    by fastforce
qed

theorem discovery_preserves_order_witness:
  "getEntitiesByDomain (hub_env home_hub) ''light'' (Some quiet_sink) w0 =
     (Inr (Entities [light_a, light_c]),
      snd (getEntitiesByDomain (hub_env home_hub) ''light'' (Some quiet_sink) w0)) \<and>
   (\<exists>response all_states states.
      requests (hub_env home_hub) (get_request (tools w0) ''/api/states'') = Inr response \<and>
      resp_json response = Inr all_states \<and> py_iter all_states = Inr states \<and>
      map (to_entity ''split'') (filter (keeps ''light'') states) = map Inr [light_a, light_c]) \<and>
   (getAllEntities_try (hub_env home_hub) (Some quiet_sink) w0 =
      (Inr home_grouped, snd (getAllEntities_try (hub_env home_hub) (Some quiet_sink) w0)) \<and>
    requests (hub_env home_hub) (get_request (tools w0) ''/api/states'') = Inr (ok_response home_states) \<and>
    status_code (ok_response home_states) = 200) \<and>
   (\<exists>all_states states ents.
      resp_json (ok_response home_states) = Inr all_states \<and> py_iter all_states = Inr states \<and>
      map (to_entity ''split'') states = map Inr ents \<and>
      (\<forall>(k, items) \<in> set home_grouped. items = filter (\<lambda>e. domain e = k) ents))"
proof -
  have run1: "getEntitiesByDomain (hub_env home_hub) ''light'' (Some quiet_sink) w0 =
     (Inr (Entities [light_a, light_c]),
      snd (getEntitiesByDomain (hub_env home_hub) ''light'' (Some quiet_sink) w0))"
    by (simp add: prod_eq_iff getEntitiesByDomain_def getEntitiesByDomain_try_def eval_defs)
  have run2: "getAllEntities_try (hub_env home_hub) (Some quiet_sink) w0 =
      (Inr home_grouped, snd (getAllEntities_try (hub_env home_hub) (Some quiet_sink) w0)) \<and>
    requests (hub_env home_hub) (get_request (tools w0) ''/api/states'') = Inr (ok_response home_states) \<and>
    status_code (ok_response home_states) = 200"
    by (simp add: prod_eq_iff getAllEntities_try_def eval_defs)
  note t = discovery_preserves_order[where env = "hub_env home_hub" and em = "Some quiet_sink"
      and w = w0 and domain' = "''light''" and es = "[light_a, light_c]" and grouped = home_grouped
      and response' = "ok_response home_states"
      and w' = "snd (getEntitiesByDomain (hub_env home_hub) ''light'' (Some quiet_sink) w0)"
      and w'' = "snd (getAllEntities_try (hub_env home_hub) (Some quiet_sink) w0)"]
  show ?thesis
    by (rule conjI[OF run1 conjI[OF t[THEN conjunct1, THEN mp, OF run1]
          conjI[OF run2 t[THEN conjunct2, THEN mp, OF run2]]]])
qed





end
